theory Spec2Isabelle
  imports Main
begin

section \<open>Python values used by orcidutils\<close>

text \<open>
  Strings are Python 2 byte strings, modelled as \<^typ>\<open>string\<close>. The exceptions that
  \<^verbatim>\<open>orcidutils.py\<close> raises or lets escape are values of \<open>py_exn\<close>; a function
  that may raise returns \<open>py_exn + 'a\<close> with \<open>Inl\<close> for the raise.
  The logging calls (\<^verbatim>\<open>bibtask.write_message\<close>, \<^verbatim>\<open>register_exception\<close>) only write to
  a side channel that no function reads back; they are left out of the model.
\<close>

datatype py_exn = OrcidRecordExisting | KeyError

text \<open>\<^verbatim>\<open>str.lower()\<close> on a byte string: the ASCII capitals are mapped, all else is kept.\<close>

definition lower_char :: "char \<Rightarrow> char" where
  "lower_char c =
     (case map_of (zip ''ABCDEFGHIJKLMNOPQRSTUVWXYZ'' ''abcdefghijklmnopqrstuvwxyz'') c of
        None \<Rightarrow> c
      | Some d \<Rightarrow> d)"

definition py_lower :: "string \<Rightarrow> string" where
  "py_lower s = map lower_char s"

text \<open>\<^verbatim>\<open>str.strip()\<close> with no argument removes leading and trailing ASCII whitespace:
  space, tab, line feed, vertical tab, form feed, carriage return.\<close>

definition py_space :: "char \<Rightarrow> bool" where
  "py_space c = (c \<in> set [CHR '' '', CHR 0x09, CHR 0x0A, CHR 0x0B, CHR 0x0C, CHR 0x0D])"

definition py_strip :: "string \<Rightarrow> string" where
  "py_strip s = rev (dropWhile py_space (rev (dropWhile py_space s)))"

section \<open>The external-id extractor: \<^verbatim>\<open>_get_external_ids\<close>\<close>

text \<open>
  \<open>old_external_ids\<close> is the dictionary built by \<^verbatim>\<open>_get_extids_from_orcid\<close>: it always
  has the four keys \<^verbatim>\<open>'doi'\<close>, \<^verbatim>\<open>'arxiv'\<close>, \<^verbatim>\<open>'isbn'\<close>, \<^verbatim>\<open>'other-id'\<close>, each holding a set.
\<close>

record old_external_ids =
  doi_ids :: "string set"
  arxiv_ids :: "string set"
  isbn_ids :: "string set"
  other_ids :: "string set"

text \<open>
  The blacklist document at \<^verbatim>\<open>CFG_ORCIDUTILS_BLACKLIST_FILE\<close>: \<open>None\<close> when the file does
  not exist (\<^verbatim>\<open>open\<close> raises \<^verbatim>\<open>IOError\<close>), otherwise the JSON object it holds, a
  dictionary from ORCID to the list of rejected identifier values, kept as an
  association list.
\<close>

type_synonym blacklist = "(string \<times> string list) list"

type_synonym blacklist_file = "blacklist option"

text \<open>\<^verbatim>\<open>blacklist = {}; try: blacklist = json.loads(open(...).read()) except IOError: pass\<close>\<close>

definition load_blacklist :: "blacklist_file \<Rightarrow> blacklist" where
  "load_blacklist f = (case f of None \<Rightarrow> [] | Some bl \<Rightarrow> bl)"

text \<open>\<^verbatim>\<open>blacklist.get(orcid, [])\<close>\<close>

definition blacklist_get :: "blacklist \<Rightarrow> string \<Rightarrow> string list" where
  "blacklist_get bl orcid = (case map_of bl orcid of None \<Rightarrow> [] | Some l \<Rightarrow> l)"

text \<open>
  What the collaborators return for one local record, as far as \<^verbatim>\<open>orcidutils.py\<close> asks
  them (\<^verbatim>\<open>get_record\<close>, \<^verbatim>\<open>record_get_field_value(s)\<close>, \<^verbatim>\<open>record_get_field_instances\<close>,
  \<^verbatim>\<open>get_doi_for_paper\<close>, \<^verbatim>\<open>bibformat_record\<close>, \<^verbatim>\<open>get_signatures_of_paper\<close>). Each field is
  named after the MARC tag and subfield code of the call: \<open>v\<close> for
  \<^verbatim>\<open>record_get_field_value\<close> (one string, empty when the field is missing), \<open>vs\<close> for
  \<^verbatim>\<open>record_get_field_values\<close>, \<open>i\<close> for \<^verbatim>\<open>record_get_field_instances\<close> (of each
  instance only its subfield list \<^verbatim>\<open>instance[0]\<close>, pairs of code and value, is read).
  Of a signature only the person id \<^verbatim>\<open>sig[0]\<close> and the name \<^verbatim>\<open>sig[4]\<close> are read.
\<close>

record paper =
  recid :: int
  doi_for_paper :: "string list"
  v020a :: string
  i037 :: "(string \<times> string) list list"
  v245a :: string
  vs520a :: "string list"
  v773p :: string
  bibformat_hx :: string
  vs980a :: "string list"
  vs502b :: "string list"
  vs773p :: "string list"
  i035 :: "(string \<times> string) list list"
  v269c :: string
  v260c :: string
  v502d :: string
  v773y :: string
  signatures :: "(int \<times> string) list"
  v359_9 :: string
  v041a :: string

text \<open>
  \<^verbatim>\<open>encode_for_jinja_and_xml\<close> (\<^verbatim>\<open>invenio.textutils\<close>) is a parameter \<open>enc\<close> of every
  function that calls it. The arXiv branch can pass it \<^verbatim>\<open>None\<close> (a field 037 with
  \<^verbatim>\<open>9:arXiv\<close> and no subfield \<^verbatim>\<open>a\<close>), so its argument is a \<^typ>\<open>string option\<close>.

  The set \<^verbatim>\<open>external_ids\<close> of pairs (kind, value) is a list without duplicates,
  \<^verbatim>\<open>add\<close> being \<^const>\<open>List.insert\<close>; the order in which \<^verbatim>\<open>list(external_ids)\<close> enumerates
  it is not fixed by Python and no result below depends on it.
\<close>

type_synonym ext_id = "string \<times> string"

text \<open>The loop \<^verbatim>\<open>for single_doi in set(doi)\<close>.\<close>

fun doi_loop :: "(string option \<Rightarrow> string) \<Rightarrow> old_external_ids \<Rightarrow> string list \<Rightarrow>
    string list \<Rightarrow> ext_id list \<Rightarrow> py_exn + ext_id list" where
  "doi_loop enc old bl [] ids = Inr ids"
| "doi_loop enc old bl (single_doi # ds) ids =
     (if single_doi \<in> doi_ids old \<or> single_doi \<in> set bl then Inl OrcidRecordExisting
      else doi_loop enc old bl ds (List.insert (''doi'', enc (Some single_doi)) ids))"

text \<open>The inner loop \<^verbatim>\<open>for field in rec[0]\<close> over the subfields of one field 037,
  on the pair (\<^verbatim>\<open>arxiv\<close>, \<^verbatim>\<open>the_id\<close>).\<close>

fun scan_037 :: "(string \<times> string) list \<Rightarrow> bool \<times> string option \<Rightarrow> bool \<times> string option" where
  "scan_037 [] st = st"
| "scan_037 (field # fs) (arxiv, the_id) =
     (if fst field = ''9'' \<and> py_lower (snd field) = ''arxiv'' then scan_037 fs (True, the_id)
      else if fst field = ''a'' then scan_037 fs (arxiv, Some (snd field))
      else scan_037 fs (arxiv, the_id))"

text \<open>\<^verbatim>\<open>the_id in old_external_ids['arxiv']\<close>; \<^verbatim>\<open>None\<close> is in no set of strings.\<close>

definition in_arxiv :: "string option \<Rightarrow> old_external_ids \<Rightarrow> bool" where
  "in_arxiv the_id old = (case the_id of None \<Rightarrow> False | Some v \<Rightarrow> v \<in> arxiv_ids old)"

text \<open>The loop \<^verbatim>\<open>for rec in record_ext_ids\<close>. A repeated arXiv id raises and catches
  \<^verbatim>\<open>DoubledIds\<close> inside the loop body, reports it and leaves the set as it is.\<close>

fun arxiv_loop :: "(string option \<Rightarrow> string) \<Rightarrow> old_external_ids \<Rightarrow>
    (string \<times> string) list list \<Rightarrow> ext_id list \<Rightarrow> py_exn + ext_id list" where
  "arxiv_loop enc old [] ids = Inr ids"
| "arxiv_loop enc old (rec # recs) ids =
     (case scan_037 rec (False, None) of
        (arxiv, the_id) \<Rightarrow>
          if arxiv then
            (if in_arxiv the_id old then Inl OrcidRecordExisting
             else let encoded = enc the_id in
               if encoded \<in> set (map snd (filter (\<lambda>p. fst p = ''arxiv'') ids))
               then arxiv_loop enc old recs ids
               else arxiv_loop enc old recs (List.insert (''arxiv'', encoded) ids))
          else arxiv_loop enc old recs ids)"

definition get_external_ids :: "(string option \<Rightarrow> string) \<Rightarrow> blacklist_file \<Rightarrow> paper \<Rightarrow>
    string \<Rightarrow> old_external_ids \<Rightarrow> string \<Rightarrow> py_exn + ext_id list" where
  "get_external_ids enc bfile p url old orcid =
     (let blacklist = load_blacklist bfile;
          doi = doi_for_paper p;
          isbn = v020a p;
          record_ext_ids = i037 p
      in case (if doi \<noteq> [] then doi_loop enc old (blacklist_get blacklist orcid) (remdups doi) []
               else Inr []) of
           Inl e \<Rightarrow> Inl e
         | Inr ids1 \<Rightarrow>
            (case (if isbn \<noteq> [] then
                     (if isbn \<in> isbn_ids old then Inl OrcidRecordExisting
                      else Inr (List.insert (''isbn'', enc (Some isbn)) ids1))
                   else Inr ids1) of
               Inl e \<Rightarrow> Inl e
             | Inr ids2 \<Rightarrow>
                (case arxiv_loop enc old record_ext_ids ids2 of
                   Inl e \<Rightarrow> Inl e
                 | Inr ids3 \<Rightarrow>
                     if url \<in> other_ids old then Inl OrcidRecordExisting
                     else if length ids3 = 0 then Inr (List.insert (''other-id'', url) ids3)
                     else Inr ids3)))"

section \<open>Building a work submission record\<close>

text \<open>
  The accessors of \<^verbatim>\<open>invenio.bibrecord\<close> over the \<^typ>\<open>paper\<close> view, with the tag and
  subfield code of the call (the indicators are \<^verbatim>\<open>''\<close> in every call of the source).
  Only the tags the source asks for are there.
\<close>

definition record_get_field_value :: "paper \<Rightarrow> string \<Rightarrow> string \<Rightarrow> string" where
  "record_get_field_value p tag code =
     (if tag = ''020'' \<and> code = ''a'' then v020a p
      else if tag = ''245'' \<and> code = ''a'' then v245a p
      else if tag = ''773'' \<and> code = ''p'' then v773p p
      else if tag = ''773'' \<and> code = ''y'' then v773y p
      else if tag = ''269'' \<and> code = ''c'' then v269c p
      else if tag = ''260'' \<and> code = ''c'' then v260c p
      else if tag = ''502'' \<and> code = ''d'' then v502d p
      else if tag = ''359'' \<and> code = ''9'' then v359_9 p
      else if tag = ''041'' \<and> code = ''a'' then v041a p
      else [])"

definition record_get_field_values :: "paper \<Rightarrow> string \<Rightarrow> string \<Rightarrow> string list" where
  "record_get_field_values p tag code =
     (if tag = ''520'' \<and> code = ''a'' then vs520a p
      else if tag = ''980'' \<and> code = ''a'' then vs980a p
      else if tag = ''502'' \<and> code = ''b'' then vs502b p
      else if tag = ''773'' \<and> code = ''p'' then vs773p p
      else [])"

definition record_get_field_instances :: "paper \<Rightarrow> string \<Rightarrow> (string \<times> string) list list" where
  "record_get_field_instances p tag =
     (if tag = ''037'' then i037 p else if tag = ''035'' then i035 p else [])"

subsection \<open>Publication date\<close>

text \<open>
  \<^verbatim>\<open>re.match\<close> anchors at the start of the string; \<^verbatim>\<open>\d\<close> is an ASCII digit; \<^verbatim>\<open>$\<close>
  matches at the end of the string and also just before a line feed that ends it.
\<close>

definition is_digit :: "char \<Rightarrow> bool" where
  "is_digit c = (c \<in> set ''0123456789'')"

definition at_dollar :: "string \<Rightarrow> bool" where
  "at_dollar rest = (rest = [] \<or> rest = [CHR 0x0A])"

text \<open>\<^verbatim>\<open>re.match(r'[12]\d{3}$', s)\<close>\<close>

fun match_year :: "string \<Rightarrow> bool" where
  "match_year (c # d1 # d2 # d3 # rest) =
     (c \<in> set ''12'' \<and> is_digit d1 \<and> is_digit d2 \<and> is_digit d3 \<and> at_dollar rest)"
| "match_year _ = False"

text \<open>\<^verbatim>\<open>re.match(r'[01]\d$', s)\<close>\<close>

fun match_month :: "string \<Rightarrow> bool" where
  "match_month (c # d1 # rest) = (c \<in> set ''01'' \<and> is_digit d1 \<and> at_dollar rest)"
| "match_month _ = False"

text \<open>\<^verbatim>\<open>re.match(r'[012]\d{3}$', s)\<close>\<close>

fun match_day :: "string \<Rightarrow> bool" where
  "match_day (c # d1 # d2 # d3 # rest) =
     (c \<in> set ''012'' \<and> is_digit d1 \<and> is_digit d2 \<and> is_digit d3 \<and> at_dollar rest)"
| "match_day _ = False"

text \<open>The date dictionary: the key \<^verbatim>\<open>'year'\<close> is always there, \<^verbatim>\<open>'month'\<close> and \<^verbatim>\<open>'day'\<close>
  are optional.\<close>

record pub_date =
  year :: string
  month :: "string option"
  day :: "string option"

text \<open>
  \<^verbatim>\<open>convert_simple_date_to_array\<close> (\<^verbatim>\<open>invenio.dateutils\<close>) is the parameter \<open>conv\<close>.
  The result \<open>None\<close> is Python's \<^verbatim>\<open>None\<close>.
\<close>

definition get_date_from_field_number ::
    "(string \<Rightarrow> string list) \<Rightarrow> paper \<Rightarrow> string \<Rightarrow> string \<Rightarrow> pub_date option" where
  "get_date_from_field_number conv p field subfield =
     (let publication_date = record_get_field_value p field subfield;
          publication_array = conv publication_date
      in if length publication_array > 0 \<and> match_year (publication_array ! 0) then
           (let result = \<lparr>year = publication_array ! 0, month = None, day = None\<rparr> in
            if length publication_array > 1 \<and> match_month (publication_array ! 1) then
              (let result = result\<lparr>month := Some (publication_array ! 1)\<rparr> in
               if length publication_array > 2 \<and> match_day (publication_array ! 2)
               then Some (result\<lparr>day := Some (publication_array ! 2)\<rparr>)
               else Some result)
            else Some result)
         else None)"

text \<open>\<^verbatim>\<open>_get_publication_date\<close> returns a dictionary; the empty dictionary of its last line
  is \<open>None\<close> here (the caller only tests the result for truth).\<close>

definition get_publication_date :: "(string \<Rightarrow> string list) \<Rightarrow> paper \<Rightarrow> pub_date option" where
  "get_publication_date conv p =
     (case get_date_from_field_number conv p ''269'' ''c'' of
        Some first_try \<Rightarrow> Some first_try
      | None \<Rightarrow>
         (case get_date_from_field_number conv p ''260'' ''c'' of
            Some second_try \<Rightarrow> Some second_try
          | None \<Rightarrow>
             (case get_date_from_field_number conv p ''502'' ''d'' of
                Some third_try \<Rightarrow> Some third_try
              | None \<Rightarrow>
                 (let publication_year = record_get_field_value p ''773'' ''y'' in
                  if publication_year \<noteq> [] \<and> match_year publication_year
                  then Some \<lparr>year = publication_year, month = None, day = None\<rparr>
                  else None))))"

subsection \<open>Work type, citation, contributors\<close>

definition get_work_type :: "paper \<Rightarrow> string" where
  "get_work_type p =
     (let work_type = map py_lower (record_get_field_values p ''980'' ''a'');
          work_type_2 = map py_lower (record_get_field_values p ''502'' ''b'');
          published_flag = (''published'' \<in> set work_type)
      in if ''book'' \<in> set work_type then ''book''
         else if ''phd'' \<in> set work_type_2 then ''dissertation''
         else if ''conferencepaper'' \<in> set work_type then ''conference-paper''
         else if ''data'' \<in> set work_type then ''data-set''
         else if published_flag \<and> record_get_field_values p ''773'' ''p'' \<noteq> []
           then ''journal-article''
         else if list_ex (\<lambda>instance. list_ex (\<lambda>tup. fst tup = ''a'') instance
                    \<and> list_ex (\<lambda>tup. fst tup = ''9'') instance \<and> \<not> published_flag)
                  (record_get_field_instances p ''035'')
           then ''working-paper''
         else ''other'')"

text \<open>\<^verbatim>\<open>s.find(c)\<close>, \<^verbatim>\<open>s.rfind(c)\<close> (\<open>-1\<close> when \<open>c\<close> is absent) and the slice \<^verbatim>\<open>s[i:j]\<close>.\<close>

definition py_find :: "string \<Rightarrow> char \<Rightarrow> int" where
  "py_find s c = (if c \<in> set s then int (length (takeWhile (\<lambda>x. x \<noteq> c) s)) else - 1)"

definition py_rfind :: "string \<Rightarrow> char \<Rightarrow> int" where
  "py_rfind s c =
     (if c \<in> set s then int (length s) - 1 - int (length (takeWhile (\<lambda>x. x \<noteq> c) (rev s)))
      else - 1)"

definition py_slice :: "string \<Rightarrow> int \<Rightarrow> int \<Rightarrow> string" where
  "py_slice s i j =
     (let n = int (length s);
          i' = (if i < 0 then max 0 (n + i) else min i n);
          j' = (if j < 0 then max 0 (n + j) else min j n)
      in take (nat (j' - i')) (drop (nat i') s))"

text \<open>\<^verbatim>\<open>_get_citation\<close>; \<^verbatim>\<open>bibformat_record(recid, 'hx')\<close> is the field \<open>bibformat_hx\<close>.\<close>

definition get_citation :: "(string option \<Rightarrow> string) \<Rightarrow> paper \<Rightarrow> string \<times> string" where
  "get_citation enc p =
     (let tex_str = bibformat_hx p;
          bibtex_content =
            enc (Some (py_slice tex_str (py_find tex_str (CHR ''@'')) (py_rfind tex_str (CHR ''}'') + 1)))
      in (''bibtex'', bibtex_content))"

definition MAX_COAUTHORS :: nat where
  "MAX_COAUTHORS = 25"

definition MAX_DESCRIPTION_LENGTH :: nat where
  "MAX_DESCRIPTION_LENGTH = 4500"

text \<open>A contributor dictionary \<^verbatim>\<open>{'name': ..., 'attributes': {'role': 'author'}}\<close> as the
  pair of name and role.\<close>

definition get_work_contributors :: "(string option \<Rightarrow> string) \<Rightarrow> paper \<Rightarrow> int \<Rightarrow> (string \<times> string) list" where
  "get_work_contributors enc p personid =
     (if length (signatures p) \<le> MAX_COAUTHORS
      then map (\<lambda>sig. (enc (Some (snd sig)), ''author''))
             (filter (\<lambda>sig. fst sig \<noteq> personid) (signatures p))
      else [])"

subsection \<open>The record and the loop body of \<^verbatim>\<open>_get_orcid_dictionaries\<close>\<close>

definition LANGUAGE_MAP :: "(string \<times> string) list" where
  "LANGUAGE_MAP =
     [(''bulgarian'', ''bg''), (''chinese'', ''zh''), (''czech'', ''cs''), (''dutch'', ''nl''),
      (''english'', ''en''), (''esperanto'', ''eo''), (''finnish'', ''fi''), (''french'', ''fr''),
      (''german'', ''de''), (''greek'', ''el''), (''hebrew'', ''he''), (''hungarian'', ''hu''),
      (''indonesian'', ''id''), (''italian'', ''it''), (''japanese'', ''ja''), (''korean'', ''ko''),
      (''latin'', ''la''), (''norwegian'', ''no''), (''persian'', ''fa''), (''polish'', ''pl''),
      (''portuguese'', ''pt''), (''romanian'', ''ro''), (''russian'', ''ru''), (''slovak'', ''sk''),
      (''spanish'', ''es''), (''swedish'', ''sv''), (''turkish'', ''tr''), (''ukrainian'', ''uk'')]"

text \<open>
  The dictionary \<^verbatim>\<open>work_dict\<close>. A key that the source sets only under a condition is an
  option; \<open>work_title\<close> is \<^verbatim>\<open>work_dict['work_title']['title']\<close>.
\<close>

record work =
  work_title :: string
  work_external_identifiers :: "ext_id list"
  short_description :: "string option"
  journal_title :: "string option"
  work_citation :: "(string \<times> string) option"
  work_type :: string
  publication_date :: "pub_date option"
  work_url :: string
  work_contributors :: "(string \<times> string) list option"
  language_code :: "string option"
  visibility :: string

text \<open>\<^verbatim>\<open>'%d' % recid\<close>: the decimal digits, with a minus sign for a negative number.\<close>

fun string_of_nat :: "nat \<Rightarrow> string" where
  "string_of_nat n =
     (if n < 10 then [''0123456789'' ! n]
      else string_of_nat (n div 10) @ [''0123456789'' ! (n mod 10)])"

definition string_of_int :: "int \<Rightarrow> string" where
  "string_of_int i = (if i < 0 then CHR ''-'' # string_of_nat (nat (- i)) else string_of_nat (nat i))"

text \<open>\<^verbatim>\<open>s.rsplit(' ', 1)[0]\<close>: what stands before the last space, or all of \<open>s\<close> when it
  has no space.\<close>

definition rsplit_space_head :: "string \<Rightarrow> string" where
  "rsplit_space_head s =
     (if CHR '' '' \<in> set s then rev (tl (dropWhile (\<lambda>c. c \<noteq> CHR '' '') (rev s))) else s)"

text \<open>The language lines (594 to 601): the value of the key \<^verbatim>\<open>'language_code'\<close>, \<open>None\<close>
  when no branch sets it.\<close>

definition get_language_code :: "(string option \<Rightarrow> string) \<Rightarrow> paper \<Rightarrow> string option" where
  "get_language_code enc p =
     (let language = record_get_field_value p ''041'' ''a'' in
      if language \<noteq> [] then
        (case map_of LANGUAGE_MAP (py_strip (py_lower language)) of
           Some language' \<Rightarrow> if language' \<noteq> [] then Some (enc (Some language')) else None
         | None \<Rightarrow> None)
      else Some ''en'')"

text \<open>
  One pass of the loop body for the record \<open>p\<close>: \<open>Inr None\<close> when the pass ends in
  \<^verbatim>\<open>continue\<close> (the extractor raised \<^verbatim>\<open>OrcidRecordExisting\<close>), \<open>Inr (Some w)\<close> when \<open>w\<close> is
  appended to \<^verbatim>\<open>orcid_list\<close>, \<open>Inl e\<close> when an exception leaves the generator. The
  assignment \<^verbatim>\<open>work_dict['work_source']['work-source'] = ...\<close> reads the key
  \<^verbatim>\<open>'work_source'\<close>, which no line has set: it raises \<^verbatim>\<open>KeyError\<close>.
\<close>

definition build_work :: "(string option \<Rightarrow> string) \<Rightarrow> (string \<Rightarrow> string list) \<Rightarrow> string \<Rightarrow>
    blacklist_file \<Rightarrow> int \<Rightarrow> old_external_ids \<Rightarrow> string \<Rightarrow> paper \<Rightarrow> py_exn + work option" where
  "build_work enc conv CFG_SITE_URL bfile personid old orcid p =
     (let url = CFG_SITE_URL @ ''/record/'' @ string_of_int (recid p) in
      case get_external_ids enc bfile p url old orcid of
        Inl e \<Rightarrow> (if e = OrcidRecordExisting then Inr None else Inl e)
      | Inr external_ids \<Rightarrow>
         (let short_descriptions = record_get_field_values p ''520'' ''a'';
              journal = record_get_field_value p ''773'' ''p'';
              contributors = get_work_contributors enc p personid;
              work_source = record_get_field_value p ''359'' ''9''
          in if work_source \<noteq> [] then Inl KeyError
             else Inr (Some
               \<lparr> work_title = enc (Some (record_get_field_value p ''245'' ''a'')),
                 work_external_identifiers = external_ids,
                 short_description =
                   (if short_descriptions \<noteq> []
                    then Some (rsplit_space_head
                           (take MAX_DESCRIPTION_LENGTH (enc (Some (short_descriptions ! 0)))))
                    else None),
                 journal_title = (if journal \<noteq> [] then Some (enc (Some journal)) else None),
                 work_citation = Some (get_citation enc p),
                 work_type = get_work_type p,
                 publication_date = get_publication_date conv p,
                 work_url = url,
                 work_contributors = (if length contributors > 0 then Some contributors else None),
                 language_code = get_language_code enc p,
                 visibility = ''public'' \<rparr>)))"

section \<open>The batch builder: \<^verbatim>\<open>_get_orcid_dictionaries\<close>\<close>

definition ORCID_SINGLE_REQUEST_WORKS :: nat where
  "ORCID_SINGLE_REQUEST_WORKS = 1"

text \<open>
  The generator, as the list of the batches it yields and the exception that ended it,
  if one did. \<open>orcid_list\<close> is the accumulator of the source; the batch size \<open>n\<close> is
  \<^verbatim>\<open>ORCID_SINGLE_REQUEST_WORKS\<close>, kept as an argument of the loop. The generator runs
  between the pushes of its consumer, and the extractor reads the blacklist document
  anew for every record: \<open>bfile_at k\<close> is the content of the document at the time the
  \<open>k\<close>-th record of \<^verbatim>\<open>papers\<close> (counted from 0) is processed, and \<open>body k\<close> is the pass
  of the loop body made at that time.
\<close>

fun dictionaries_loop :: "nat \<Rightarrow> (nat \<Rightarrow> paper \<Rightarrow> py_exn + work option) \<Rightarrow> nat \<Rightarrow> work list \<Rightarrow>
    paper list \<Rightarrow> work list list \<times> py_exn option" where
  "dictionaries_loop n body k orcid_list [] =
     (if length orcid_list > 0 then ([orcid_list], None) else ([], None))"
| "dictionaries_loop n body k orcid_list (p # papers) =
     (case body k p of
        Inl e \<Rightarrow> ([], Some e)
      | Inr None \<Rightarrow> dictionaries_loop n body (Suc k) orcid_list papers
      | Inr (Some work_dict) \<Rightarrow>
          (let orcid_list' = orcid_list @ [work_dict] in
           if length orcid_list' = n
           then (case dictionaries_loop n body (Suc k) [] papers of
                   (batches, ended) \<Rightarrow> (orcid_list' # batches, ended))
           else dictionaries_loop n body (Suc k) orcid_list' papers))"

definition get_orcid_dictionaries :: "nat \<Rightarrow> (string option \<Rightarrow> string) \<Rightarrow> (string \<Rightarrow> string list) \<Rightarrow>
    string \<Rightarrow> (nat \<Rightarrow> blacklist_file) \<Rightarrow> paper list \<Rightarrow> int \<Rightarrow> old_external_ids \<Rightarrow> string \<Rightarrow>
    work list list \<times> py_exn option" where
  "get_orcid_dictionaries n enc conv CFG_SITE_URL bfile_at papers personid old orcid =
     dictionaries_loop n
       (\<lambda>k. build_work enc conv CFG_SITE_URL (bfile_at k) personid old orcid) 0 [] papers"

text \<open>
  The claim's side of the comparison: the submission records of the candidate works
  that are not skipped, in input order.
\<close>

fun submission_records :: "(nat \<Rightarrow> paper \<Rightarrow> py_exn + work option) \<Rightarrow> nat \<Rightarrow> paper list \<Rightarrow>
    work list" where
  "submission_records body k [] = []"
| "submission_records body k (p # papers) =
     (case body k p of
        Inr (Some w) \<Rightarrow> w # submission_records body (Suc k) papers
      | _ \<Rightarrow> submission_records body (Suc k) papers)"

section \<open>The push engine: \<^verbatim>\<open>_push_few_works\<close> and its loop\<close>

text \<open>The response of \<^verbatim>\<open>requests.post\<close>: its \<^verbatim>\<open>status_code\<close> and its \<^verbatim>\<open>text\<close>.\<close>

record http_response =
  status_code :: int
  text_body :: string

text \<open>\<^verbatim>\<open>response.raise_for_status()\<close> raises \<^verbatim>\<open>HTTPError\<close> for a status from 400 to 599
  and returns for any other.\<close>

definition raises_http_error :: "http_response \<Rightarrow> bool" where
  "raises_http_error response = (400 \<le> status_code response \<and> status_code response < 600)"

text \<open>
  \<^verbatim>\<open>re.search(r"have the same external id \"(.*)\"", text)\<close> and its group: the leftmost
  place where the literal text stands and a double quote follows it on the same line
  (\<^verbatim>\<open>.\<close> does not match a line feed); the group is greedy, it runs to the last double
  quote of that line.
\<close>

definition same_id_literal :: string where
  "same_id_literal = ''have the same external id '' @ [CHR 0x22]"

fun is_prefix :: "string \<Rightarrow> string \<Rightarrow> bool" where
  "is_prefix [] s = True"
| "is_prefix (c # cs) [] = False"
| "is_prefix (c # cs) (d # ds) = (c = d \<and> is_prefix cs ds)"

definition match_same_id_at :: "string \<Rightarrow> string option" where
  "match_same_id_at s =
     (if is_prefix same_id_literal s then
        (let line = takeWhile (\<lambda>c. c \<noteq> CHR 0x0A) (drop (length same_id_literal) s) in
         if CHR 0x22 \<in> set line
         then Some (rev (tl (dropWhile (\<lambda>c. c \<noteq> CHR 0x22) (rev line))))
         else None)
      else None)"

fun search_same_id :: "string \<Rightarrow> string option" where
  "search_same_id [] = match_same_id_at []"
| "search_same_id (c # cs) =
     (case match_same_id_at (c # cs) of
        Some wrong_id \<Rightarrow> Some wrong_id
      | None \<Rightarrow> search_same_id cs)"

text \<open>
  Modelled from the spec: \<^verbatim>\<open>delete_token\<close> of \<^verbatim>\<open>invenio.bibauthorid_dbinterface\<close>, which
  is not among the sources. The spec's credential store is a list of tuples (author id,
  token, pending-change flag) with "get/delete credential by author-id".
\<close>

type_synonym token_table = "(int \<times> string \<times> bool) list"

definition delete_token :: "int \<Rightarrow> token_table \<Rightarrow> token_table" where
  "delete_token pid tokens = filter (\<lambda>row. fst row \<noteq> pid) tokens"

text \<open>
  What \<^verbatim>\<open>_push_few_works\<close> reads and writes outside its arguments: the blacklist
  document, the token table, and the registry, which is the function \<open>srv\<close> from the
  number of requests posted so far and the batch posted to the response.
\<close>

record world =
  blacklist_doc :: blacklist_file
  token_rows :: token_table
  requests_posted :: nat

text \<open>\<^verbatim>\<open>if doid in blacklist: blacklist[doid].append(wrong_id) else: blacklist[doid] = [wrong_id]\<close>\<close>

fun blacklist_record :: "string \<Rightarrow> string \<Rightarrow> blacklist \<Rightarrow> blacklist" where
  "blacklist_record doid wrong_id [] = [(doid, [wrong_id])]"
| "blacklist_record doid wrong_id (entry # bl) =
     (if fst entry = doid then (doid, snd entry @ [wrong_id]) # bl
      else entry # blacklist_record doid wrong_id bl)"

text \<open>The value \<^verbatim>\<open>_push_few_works\<close> returns: \<^verbatim>\<open>True\<close>, \<^verbatim>\<open>False\<close> or the shorter list.\<close>

datatype push_result = PBool bool | PList "work list"

text \<open>\<^verbatim>\<open>[x for x in short_list if all(t[1] != wrong_id for t in x['work_external_identifiers'])]\<close>\<close>

definition shorter_list_of :: "string \<Rightarrow> work list \<Rightarrow> work list" where
  "shorter_list_of wrong_id short_list =
     filter (\<lambda>x. list_all (\<lambda>t. snd t \<noteq> wrong_id) (work_external_identifiers x)) short_list"

definition push_few_works :: "(nat \<Rightarrow> work list \<Rightarrow> http_response) \<Rightarrow> world \<Rightarrow> string \<Rightarrow> work list \<Rightarrow>
    int \<Rightarrow> world \<times> push_result" where
  "push_few_works srv w doid short_list pid =
     (let response = srv (requests_posted w) short_list;
          w1 = w\<lparr>requests_posted := Suc (requests_posted w)\<rparr>;
          code = status_code response
      in if code = 401 then (w1\<lparr>token_rows := delete_token pid (token_rows w1)\<rparr>, PBool True)
         else if code \<noteq> 201 \<and> code \<noteq> 200 then
           (if raises_http_error response then
              (case search_same_id (text_body response) of
                 Some wrong_id \<Rightarrow>
                   (let shorter_list = shorter_list_of wrong_id short_list;
                        blacklist = load_blacklist (blacklist_doc w1);
                        w2 = (if blacklist \<noteq> []
                              then w1\<lparr>blacklist_doc := Some (blacklist_record doid wrong_id blacklist)\<rparr>
                              else w1)
                    in if length shorter_list = 0 then (w2, PBool True)
                       else (w2, PList shorter_list))
               | None \<Rightarrow> (w1, PBool False))
            else (w1, PBool True))
         else (w1, PBool True))"

text \<open>
  The loop of \<^verbatim>\<open>_orcid_push_with_bibtask\<close> for one batch:
  \<^verbatim>\<open>result = orcid_small_list; while isinstance(result, list): result = _push_few_works(...)\<close>.
  Nothing in the source bounds the number of rounds, so the loop is a partial function:
  \<open>None\<close> when it never ends.
\<close>

partial_function (option) push_loop :: "(nat \<Rightarrow> work list \<Rightarrow> http_response) \<Rightarrow> string \<Rightarrow> int \<Rightarrow>
    world \<Rightarrow> push_result \<Rightarrow> (world \<times> bool) option" where
  "push_loop srv doid pid w result =
     (case result of
        PList short_list \<Rightarrow>
          (case push_few_works srv w doid short_list pid of
             (w', result') \<Rightarrow> push_loop srv doid pid w' result')
      | PBool b \<Rightarrow> Some (w, b))"

text \<open>The lines after the loop: \<^verbatim>\<open>if not result: success = False; break\<close>. The pair is
  the new value of \<^verbatim>\<open>success\<close> and whether the loop over the batches goes on.\<close>

definition after_batch :: "bool \<Rightarrow> bool \<Rightarrow> bool \<times> bool" where
  "after_batch success result = (if \<not> result then (False, False) else (success, True))"

text \<open>
  The condition under which \<^verbatim>\<open>_push_few_works\<close> enters its collision branch with the
  value \<open>wrong_id\<close>: the status is none of 401, 201, 200, \<^verbatim>\<open>raise_for_status\<close> raises,
  and the pattern finds \<open>wrong_id\<close> in the body.
\<close>

definition collision_named :: "http_response \<Rightarrow> string \<Rightarrow> bool" where
  "collision_named response wrong_id =
     (status_code response \<noteq> 401 \<and> status_code response \<noteq> 201 \<and> status_code response \<noteq> 200
      \<and> raises_http_error response \<and> search_same_id (text_body response) = Some wrong_id)"

text \<open>The condition under which \<^verbatim>\<open>_push_few_works\<close> returns \<^verbatim>\<open>False\<close>: the status is
  none of 401, 201, 200, \<^verbatim>\<open>raise_for_status\<close> raises, and the pattern finds nothing in
  the body.\<close>

definition unmatched_error :: "http_response \<Rightarrow> bool" where
  "unmatched_error response =
     (status_code response \<noteq> 401 \<and> status_code response \<noteq> 201 \<and> status_code response \<noteq> 200
      \<and> raises_http_error response \<and> search_same_id (text_body response) = None)"

text \<open>A submission record carries a value when one of its external identifiers has it.\<close>

definition carries :: "work \<Rightarrow> string \<Rightarrow> bool" where
  "carries x wrong_id = list_ex (\<lambda>t. snd t = wrong_id) (work_external_identifiers x)"


section \<open>Fetching what the registry already knows\<close>

text \<open>
  The exceptions of a request, as far as the source tells them apart: \<^verbatim>\<open>ReadTimeout\<close>,
  \<^verbatim>\<open>ConnectTimeout\<close> and \<^verbatim>\<open>HTTPError\<close> are subclasses of \<^verbatim>\<open>RequestException\<close>;
  \<open>OtherRequestException\<close> is any other \<^verbatim>\<open>RequestException\<close>, \<open>OtherException\<close> any
  exception that is not one.
\<close>

datatype fetch_exn =
  ReadTimeout | ConnectTimeout | HTTPError | OtherRequestException | OtherException

text \<open>\<^verbatim>\<open>except RequestException\<close>\<close>

definition is_request_exception :: "fetch_exn \<Rightarrow> bool" where
  "is_request_exception e = (e \<noteq> OtherException)"

definition retry_if_timeout_error :: "fetch_exn \<Rightarrow> bool" where
  "retry_if_timeout_error exception = (exception = ReadTimeout \<or> exception = ConnectTimeout)"

subsection \<open>\<^verbatim>\<open>_get_extids_from_orcid\<close>: the snapshot used by the push\<close>

text \<open>
  The profile that \<^verbatim>\<open>read_record_public(orcid_id, 'activities')\<close> returns, as far as the
  function walks it: the list \<^verbatim>\<open>works.group\<close> (empty when a key is missing), of each
  work the list \<^verbatim>\<open>identifiers.identifier\<close> (\<open>None\<close> when the walk to it raises
  \<^verbatim>\<open>KeyError\<close>, \<^verbatim>\<open>AttributeError\<close> or \<^verbatim>\<open>TypeError\<close>), of each identifier the values under
  \<^verbatim>\<open>'external-identifier-type'\<close> and \<^verbatim>\<open>'external-identifier-id'\<close> (\<open>None\<close> for a missing
  key). An exception inside the loop over one work's identifiers ends that loop; what
  was added before stays. \<^verbatim>\<open>get_doi\<close> (\<^verbatim>\<open>invenio.bibauthorid_general_utils\<close>) is the
  parameter \<open>get_doi\<close>; when it finds no DOI nothing is added for it here.
\<close>

record ext_identifier =
  external_identifier_type :: "string option"
  external_identifier_id :: "string option"

definition ext_ids_add :: "(string \<Rightarrow> string option) \<Rightarrow> string \<Rightarrow> string \<Rightarrow>
    old_external_ids \<Rightarrow> old_external_ids" where
  "ext_ids_add get_doi identifier_type v d =
     (if identifier_type = ''doi'' then
        d\<lparr>doi_ids := insert v ((case get_doi v of None \<Rightarrow> {} | Some n \<Rightarrow> {n}) \<union> doi_ids d)\<rparr>
      else if identifier_type = ''arxiv'' then d\<lparr>arxiv_ids := insert v (arxiv_ids d)\<rparr>
      else if identifier_type = ''isbn'' then d\<lparr>isbn_ids := insert v (isbn_ids d)\<rparr>
      else if identifier_type = ''other-id'' then d\<lparr>other_ids := insert v (other_ids d)\<rparr>
      else d)"

fun add_identifiers :: "(string \<Rightarrow> string option) \<Rightarrow> ext_identifier list \<Rightarrow>
    old_external_ids \<Rightarrow> old_external_ids" where
  "add_identifiers get_doi [] d = d"
| "add_identifiers get_doi (i # rest) d =
     (case external_identifier_type i of
        None \<Rightarrow> d
      | Some t \<Rightarrow>
         (case external_identifier_id i of
            None \<Rightarrow> d
          | Some v \<Rightarrow> add_identifiers get_doi rest (ext_ids_add get_doi (py_lower t) v d)))"

fun add_works :: "(string \<Rightarrow> string option) \<Rightarrow> ext_identifier list option list \<Rightarrow>
    old_external_ids \<Rightarrow> old_external_ids" where
  "add_works get_doi [] d = d"
| "add_works get_doi (w # ws) d =
     (case w of
        None \<Rightarrow> add_works get_doi ws d
      | Some ids \<Rightarrow> add_works get_doi ws (add_identifiers get_doi ids d))"

definition empty_ext_ids_dict :: old_external_ids where
  "empty_ext_ids_dict = \<lparr>doi_ids = {}, arxiv_ids = {}, isbn_ids = {}, other_ids = {}\<rparr>"

text \<open>
  \<open>api k\<close> is what the \<open>k\<close>-th call of \<^verbatim>\<open>read_record_public\<close> does (counted from 0): it
  raises, or returns a profile (\<open>None\<close> for a profile that is \<^verbatim>\<open>None\<close> or empty). The
  result is the number of calls made and what the function returns or lets escape.
  An \<^verbatim>\<open>orcid_id\<close> that is \<^verbatim>\<open>None\<close> or empty is the empty string.
\<close>

definition get_extids_from_orcid :: "(string \<Rightarrow> string option) \<Rightarrow>
    (nat \<Rightarrow> fetch_exn + ext_identifier list option list option) \<Rightarrow> string \<Rightarrow>
    nat \<times> (fetch_exn + old_external_ids)" where
  "get_extids_from_orcid get_doi api orcid_id =
     (if orcid_id \<noteq> [] then
        (case api 0 of
           Inl e \<Rightarrow> if is_request_exception e then (1, Inr empty_ext_ids_dict) else (1, Inl e)
         | Inr None \<Rightarrow> (1, Inr empty_ext_ids_dict)
         | Inr (Some groups) \<Rightarrow> (1, Inr (add_works get_doi groups empty_ext_ids_dict)))
      else (0, Inr empty_ext_ids_dict))"

subsection \<open>\<^verbatim>\<open>get_dois_from_orcid_api_v2_1\<close>: the request with retries\<close>

text \<open>
  The decorator \<^verbatim>\<open>@retry(wrap_exception=True, retry_on_exception=retry_if_timeout_error,
  wait_exponential_multiplier=250, stop_max_attempt_number=3)\<close> of the library
  \<^verbatim>\<open>retrying\<close>. Its loop calls the function; a returned value is returned; an exception
  that \<^verbatim>\<open>retry_on_exception\<close> rejects is raised at once, wrapped in \<^verbatim>\<open>RetryError\<close>
  because of \<^verbatim>\<open>wrap_exception\<close>; an exception it accepts raises \<^verbatim>\<open>RetryError\<close> when the
  attempt number has reached \<^verbatim>\<open>stop_max_attempt_number\<close>, and otherwise the loop sleeps
  \<^verbatim>\<open>wait_exponential_multiplier * 2 ** attempt_number\<close> milliseconds (at most
  \<^verbatim>\<open>MAX_WAIT\<close>) and calls again with the next attempt number. Attempt numbers start at 1.
  The sleeps are kept as the list of their lengths in milliseconds.
\<close>

datatype call_exn = RetryError fetch_exn

definition MAX_WAIT :: nat where
  "MAX_WAIT = 1073741823"

definition exponential_sleep :: "nat \<Rightarrow> nat \<Rightarrow> nat" where
  "exponential_sleep multiplier previous_attempt_number =
     min (multiplier * 2 ^ previous_attempt_number) MAX_WAIT"

function retrying_call :: "(fetch_exn \<Rightarrow> bool) \<Rightarrow> nat \<Rightarrow> nat \<Rightarrow> (nat \<Rightarrow> fetch_exn + 'a) \<Rightarrow>
    nat \<Rightarrow> nat list \<Rightarrow> nat \<times> nat list \<times> (call_exn + 'a)" where
  "retrying_call retry_on_exception multiplier stop_max_attempt_number fn attempt_number sleeps =
     (case fn attempt_number of
        Inr v \<Rightarrow> (attempt_number, sleeps, Inr v)
      | Inl e \<Rightarrow>
          if \<not> retry_on_exception e then (attempt_number, sleeps, Inl (RetryError e))
          else if attempt_number \<ge> stop_max_attempt_number
            then (attempt_number, sleeps, Inl (RetryError e))
          else retrying_call retry_on_exception multiplier stop_max_attempt_number fn
                 (attempt_number + 1) (sleeps @ [exponential_sleep multiplier attempt_number]))"
  by pat_completeness auto
termination
  by (relation "measure (\<lambda>(r, m, stop, fn, attempt_number, sleeps). stop - attempt_number)") auto

declare retrying_call.simps [simp del]

text \<open>The decorated function \<^verbatim>\<open>_get_works_from_orcid\<close>, given what \<^verbatim>\<open>requests.get\<close> does:
  a response whose status is not 200 goes through \<^verbatim>\<open>raise_for_status\<close>.\<close>

definition get_works_from_orcid :: "fetch_exn + http_response \<Rightarrow> fetch_exn + http_response" where
  "get_works_from_orcid got =
     (case got of
        Inl e \<Rightarrow> Inl e
      | Inr res \<Rightarrow> if status_code res \<noteq> 200 \<and> raises_http_error res then Inl HTTPError
                   else Inr res)"

text \<open>
  \<^verbatim>\<open>get_dois_from_orcid_api_v2_1\<close> with \<^verbatim>\<open>low_level=True\<close>, up to the line that binds
  \<^verbatim>\<open>works\<close>: \<open>net k\<close> is what the \<open>k\<close>-th call of \<^verbatim>\<open>requests.get\<close> does, \<open>json_of\<close> is
  \<^verbatim>\<open>res.json()\<close> (\<open>None\<close> for \<^verbatim>\<open>ValueError\<close>). The result is the number of requests made,
  the sleeps between them, and \<open>None\<close> where the function returns \<^verbatim>\<open>[]\<close> early, else
  the decoded body, which the rest of the function turns into the list of DOIs.
\<close>

definition get_dois_from_orcid_api_v2_1_works :: "string \<Rightarrow> string \<Rightarrow>
    (nat \<Rightarrow> fetch_exn + http_response) \<Rightarrow> (string \<Rightarrow> 'j option) \<Rightarrow> nat \<times> nat list \<times> 'j option" where
  "get_dois_from_orcid_api_v2_1_works orcid_id token net json_of =
     (if orcid_id = [] then (0, [], None)
      else if token = [] then (0, [], None)
      else
        (case retrying_call retry_if_timeout_error 250 3 (\<lambda>k. get_works_from_orcid (net k)) 1 [] of
           (attempts, sleeps, Inl _) \<Rightarrow> (attempts, sleeps, None)
         | (attempts, sleeps, Inr res) \<Rightarrow> (attempts, sleeps, json_of (text_body res))))"

section \<open>Values for the examples\<close>

text \<open>An encoder that leaves its text as it is (and gives the empty string for
  \<^verbatim>\<open>None\<close>), a record with every field empty, and a snapshot in which the registry
  knows nothing: the concrete inputs of the examples below.\<close>

definition plain_enc :: "string option \<Rightarrow> string" where
  "plain_enc v = (case v of None \<Rightarrow> [] | Some s \<Rightarrow> s)"

definition empty_paper :: paper where
  "empty_paper = \<lparr> recid = 0, doi_for_paper = [], v020a = [], i037 = [], v245a = [],
     vs520a = [], v773p = [], bibformat_hx = [], vs980a = [], vs502b = [], vs773p = [],
     i035 = [], v269c = [], v260c = [], v502d = [], v773y = [], signatures = [],
     v359_9 = [], v041a = [] \<rparr>"

definition nothing_known :: old_external_ids where
  "nothing_known = \<lparr>doi_ids = {}, arxiv_ids = {}, isbn_ids = {}, other_ids = {}\<rparr>"

text \<open>The record that the loop body builds from a paper in which only identifiers and
  the language are filled in.\<close>

definition bare_work :: "string \<Rightarrow> ext_id list \<Rightarrow> string option \<Rightarrow> work" where
  "bare_work url ids lang =
     \<lparr> work_title = [], work_external_identifiers = ids, short_description = None,
       journal_title = None, work_citation = Some (''bibtex'', []), work_type = ''other'',
       publication_date = None, work_url = url, work_contributors = None,
       language_code = lang, visibility = ''public'' \<rparr>"

text \<open>Three candidate works: one with a DOI, one whose DOI the examples put in the
  remote snapshot, one with no identifier.\<close>

definition three_papers :: "paper list" where
  "three_papers =
     [empty_paper\<lparr>recid := 1, doi_for_paper := [''10.1/x'']\<rparr>,
      empty_paper\<lparr>recid := 2, doi_for_paper := [''10.1/known'']\<rparr>,
      empty_paper\<lparr>recid := 3\<rparr>]"

text \<open>A collision response naming \<open>v\<close>; a registry that already holds \<open>v\<close>, refuses
  every batch carrying it and accepts every other; a registry that refuses every batch
  naming \<open>v\<close>, carried or not; a registry that answers 401; and a first state of the
  world: no blacklist document, one author with a token, no request posted.\<close>

definition collision_response :: "string \<Rightarrow> http_response" where
  "collision_response v =
     \<lparr>status_code = 409, text_body = ''Two works '' @ same_id_literal @ v @ [CHR 0x22, CHR ''.'']\<rparr>"

definition registry_holding :: "string \<Rightarrow> nat \<Rightarrow> work list \<Rightarrow> http_response" where
  "registry_holding v k short_list =
     (if list_ex (\<lambda>x. carries x v) short_list then collision_response v
      else \<lparr>status_code = 201, text_body = []\<rparr>)"

definition registry_refusing :: "string \<Rightarrow> nat \<Rightarrow> work list \<Rightarrow> http_response" where
  "registry_refusing v k short_list = collision_response v"

definition registry_unauthorized :: "nat \<Rightarrow> work list \<Rightarrow> http_response" where
  "registry_unauthorized k short_list = \<lparr>status_code = 401, text_body = []\<rparr>"

definition fresh_world :: world where
  "fresh_world =
     \<lparr>blacklist_doc = None, token_rows = [(7, ''token-7'', True)], requests_posted = 0\<rparr>"

text \<open>A profile with one work that has a DOI; an interface to the registry whose first
  read times out and whose later reads return that profile; a network on which every
  request times out.\<close>

definition one_doi_profile :: "ext_identifier list option list" where
  "one_doi_profile =
     [Some [\<lparr>external_identifier_type = Some ''DOI'', external_identifier_id = Some ''10.1/x''\<rparr>]]"

definition api_timeout_once :: "nat \<Rightarrow> fetch_exn + ext_identifier list option list option" where
  "api_timeout_once k = (if k = 0 then Inl ReadTimeout else Inr (Some one_doi_profile))"

definition net_always_timeout :: "nat \<Rightarrow> fetch_exn + http_response" where
  "net_always_timeout k = Inl ReadTimeout"

section \<open>Results about the extractor\<close>

lemma doi_loop_skip:
  "\<exists>d \<in> set ds. d \<in> doi_ids old \<or> d \<in> set bl \<Longrightarrow>
   doi_loop enc old bl ds ids = Inl OrcidRecordExisting"
  by (induction ds arbitrary: ids) auto

lemma doi_loop_exn:
  "doi_loop enc old bl ds ids = Inl e \<Longrightarrow> e = OrcidRecordExisting"
  by (induction ds arbitrary: ids) (auto split: if_splits)

lemma arxiv_loop_exn:
  "arxiv_loop enc old recs ids = Inl e \<Longrightarrow> e = OrcidRecordExisting"
  by (induction recs arbitrary: ids) (auto split: if_splits prod.splits simp: Let_def)

lemma arxiv_loop_skip:
  "\<exists>r \<in> set recs. fst (scan_037 r (False, None)) \<and> in_arxiv (snd (scan_037 r (False, None))) old \<Longrightarrow>
   arxiv_loop enc old recs ids = Inl OrcidRecordExisting"
  by (induction recs arbitrary: ids) (auto split: prod.splits simp: Let_def)

lemma get_external_ids_exn:
  "get_external_ids enc bfile p url old orcid = Inl e \<Longrightarrow> e = OrcidRecordExisting"
  by (auto simp: get_external_ids_def Let_def split: sum.splits if_splits
      dest: doi_loop_exn arxiv_loop_exn)

text \<open>
  Claim C1, as stated: a candidate identifier (DOI, ISBN or arXiv id) whose value is in
  the remote snapshot for its kind \<^emph>\<open>or in the author's blacklist\<close> makes the extractor
  raise \<^verbatim>\<open>OrcidRecordExisting\<close>. The source consults the blacklist for DOIs only. A
  record whose ISBN is in the author's blacklist and not in the snapshot is not skipped:
  the extractor returns the ISBN for submission.
\<close>

theorem C1_blacklisted_isbn_counterexample:
  "''9780'' \<in> set (blacklist_get (load_blacklist (Some [(''0000-0001'', [''9780''])])) ''0000-0001'')
   \<and> get_external_ids plain_enc (Some [(''0000-0001'', [''9780''])])
       (empty_paper\<lparr>v020a := ''9780''\<rparr>) ''http://x/record/1'' nothing_known ''0000-0001''
     = Inr [(''isbn'', ''9780'')]"
  by (simp add: get_external_ids_def empty_paper_def plain_enc_def load_blacklist_def
      blacklist_get_def nothing_known_def)

text \<open>
  Claim C1, amended: the extractor raises \<^verbatim>\<open>OrcidRecordExisting\<close> for the whole work
  whenever one of the work's DOIs is in the snapshot's DOI set or in the author's
  blacklist, or its ISBN is in the snapshot's ISBN set, or the id of one of its arXiv
  fields (a field 037 with a subfield \<^verbatim>\<open>9\<close> reading arXiv) is in the snapshot's arXiv
  set. Values are compared as the collaborators return them.
\<close>

theorem C1_skip_on_known_id:
  assumes "(\<exists>d \<in> set (doi_for_paper p).
              d \<in> doi_ids old \<or> d \<in> set (blacklist_get (load_blacklist bfile) orcid))
         \<or> (v020a p \<noteq> [] \<and> v020a p \<in> isbn_ids old)
         \<or> (\<exists>r \<in> set (i037 p). fst (scan_037 r (False, None))
               \<and> in_arxiv (snd (scan_037 r (False, None))) old)"
  shows "get_external_ids enc bfile p url old orcid = Inl OrcidRecordExisting"
proof -
  consider (doi) "\<exists>d \<in> set (doi_for_paper p).
              d \<in> doi_ids old \<or> d \<in> set (blacklist_get (load_blacklist bfile) orcid)"
    | (isbn) "v020a p \<noteq> []" "v020a p \<in> isbn_ids old"
    | (arxiv) "\<exists>r \<in> set (i037 p). fst (scan_037 r (False, None))
               \<and> in_arxiv (snd (scan_037 r (False, None))) old"
    using assms by blast
  then show ?thesis
  proof cases
    case doi
    then have ne: "doi_for_paper p \<noteq> []" by auto
    from doi have "\<exists>d \<in> set (remdups (doi_for_paper p)).
              d \<in> doi_ids old \<or> d \<in> set (blacklist_get (load_blacklist bfile) orcid)" by simp
    then have "doi_loop enc old (blacklist_get (load_blacklist bfile) orcid)
        (remdups (doi_for_paper p)) [] = Inl OrcidRecordExisting"
      by (rule doi_loop_skip)
    with ne show ?thesis by (simp add: get_external_ids_def)
  next
    case isbn
    then show ?thesis
      by (auto simp: get_external_ids_def Let_def split: sum.splits dest: doi_loop_exn)
  next
    case arxiv
    then show ?thesis
      by (auto simp: get_external_ids_def Let_def arxiv_loop_skip split: sum.splits
          dest: doi_loop_exn)
  qed
qed

text \<open>The amended claim at a work with two DOIs, the second of them blacklisted for the
  author, while the registry knows nothing.\<close>

theorem C1_skip_on_known_id_witness:
  "''10.1/y'' \<in> set (blacklist_get (load_blacklist (Some [(''0000-0001'', [''10.1/y''])])) ''0000-0001'')
   \<and> get_external_ids plain_enc (Some [(''0000-0001'', [''10.1/y''])])
       (empty_paper\<lparr>doi_for_paper := [''10.1/x'', ''10.1/y'']\<rparr>) ''http://x/record/1''
       nothing_known ''0000-0001''
     = Inl OrcidRecordExisting"
proof -
  have h: "''10.1/y'' \<in> set (blacklist_get (load_blacklist (Some [(''0000-0001'', [''10.1/y''])]))
      ''0000-0001'')"
    by (simp add: blacklist_get_def load_blacklist_def)
  have d: "''10.1/y'' \<in> set (doi_for_paper (empty_paper\<lparr>doi_for_paper := [''10.1/x'', ''10.1/y'']\<rparr>))"
    by simp
  from h d show ?thesis
    using C1_skip_on_known_id [of "empty_paper\<lparr>doi_for_paper := [''10.1/x'', ''10.1/y'']\<rparr>"
        nothing_known "Some [(''0000-0001'', [''10.1/y''])]" "''0000-0001''" plain_enc
        "''http://x/record/1''"]
    by blast
qed

text \<open>
  Claim C9: a work whose canonical URL is in the snapshot under \<^verbatim>\<open>'other-id'\<close> makes
  \<^verbatim>\<open>_get_external_ids\<close> raise \<^verbatim>\<open>OrcidRecordExisting\<close>, whatever bibliographic identifiers
  the work carries.
\<close>

theorem C9_known_url_skips:
  "url \<in> other_ids old \<Longrightarrow>
   get_external_ids enc bfile p url old orcid = Inl OrcidRecordExisting"
  by (auto simp: get_external_ids_def Let_def split: sum.splits
      dest: doi_loop_exn arxiv_loop_exn)

text \<open>Claim C9 at a work with a DOI, an ISBN and an arXiv id, none of them known to the
  registry and none blacklisted: the URL alone decides.\<close>

theorem C9_known_url_skips_witness:
  "''http://x/record/1'' \<in> other_ids (nothing_known\<lparr>other_ids := {''http://x/record/1''}\<rparr>)
   \<and> get_external_ids plain_enc None
       (empty_paper\<lparr>doi_for_paper := [''10.1/x''], v020a := ''9780'',
          i037 := [[(''9'', ''arXiv''), (''a'', ''1501.00001'')]]\<rparr>)
       ''http://x/record/1'' (nothing_known\<lparr>other_ids := {''http://x/record/1''}\<rparr>) ''0000-0001''
     = Inl OrcidRecordExisting"
  using C9_known_url_skips [of "''http://x/record/1''"
      "nothing_known\<lparr>other_ids := {''http://x/record/1''}\<rparr>" plain_enc None
      "empty_paper\<lparr>doi_for_paper := [''10.1/x''], v020a := ''9780'',
          i037 := [[(''9'', ''arXiv''), (''a'', ''1501.00001'')]]\<rparr>" "''0000-0001''"]
  by simp

section \<open>Results about the publication date and the language code\<close>

lemma match_day_shape:
  "match_day x \<Longrightarrow> \<exists>c d1 d2 d3. (x = [c, d1, d2, d3] \<or> x = [c, d1, d2, d3, CHR 0x0A]) \<and>
      c \<in> set ''012'' \<and> is_digit d1 \<and> is_digit d2 \<and> is_digit d3"
  by (cases x rule: match_day.cases) (auto simp: at_dollar_def)

lemma match_day_not_two: "match_day x \<Longrightarrow> length x \<noteq> 2"
  by (cases x rule: match_day.cases) simp_all

lemma date_day_matches:
  assumes "get_date_from_field_number conv p field subfield = Some d" "day d = Some x"
  shows "length (conv (record_get_field_value p field subfield)) > 2 \<and>
         x = conv (record_get_field_value p field subfield) ! 2 \<and> match_day x"
  using assms
  by (auto simp: get_date_from_field_number_def Let_def split: if_splits)

lemma publication_date_day_matches:
  assumes "get_publication_date conv p = Some d" "day d = Some x"
  shows "match_day x"
  using assms
  by (auto simp: get_publication_date_def Let_def split: option.splits if_splits
      dest: date_day_matches)

lemma build_work_date:
  "build_work enc conv site bfile personid old orcid p = Inr (Some w) \<Longrightarrow>
   publication_date w = get_publication_date conv p"
  by (auto simp: build_work_def Let_def split: sum.splits if_splits)

lemma build_work_language:
  "build_work enc conv site bfile personid old orcid p = Inr (Some w) \<Longrightarrow>
   language_code w = get_language_code enc p"
  by (auto simp: build_work_def Let_def split: sum.splits if_splits)

text \<open>
  Claim C10: \<^verbatim>\<open>_get_date_from_field_number\<close> sets the key \<^verbatim>\<open>'day'\<close> only when the third
  component of the parsed date matches \<^verbatim>\<open>[012]\d{3}$\<close>, which is then the value of the
  key: a character 0, 1 or 2 and three digits (and, by \<^verbatim>\<open>$\<close>, possibly one final line
  feed). So the day of the publication date of a work submission record is never a
  string of two characters.
\<close>

theorem C10_day_only_four_digits:
  "(get_date_from_field_number conv p field subfield = Some d \<and> day d = Some x \<longrightarrow>
      2 < length (conv (record_get_field_value p field subfield)) \<and>
      x = conv (record_get_field_value p field subfield) ! 2 \<and> match_day x \<and>
      (\<exists>c d1 d2 d3. (x = [c, d1, d2, d3] \<or> x = [c, d1, d2, d3, CHR 0x0A]) \<and>
         c \<in> set ''012'' \<and> is_digit d1 \<and> is_digit d2 \<and> is_digit d3))
   \<and> (build_work enc conv site bfile personid old orcid p = Inr (Some w) \<and>
      publication_date w = Some d' \<and> day d' = Some y \<longrightarrow> match_day y \<and> length y \<noteq> 2)"
proof (intro conjI impI)
  assume a: "get_date_from_field_number conv p field subfield = Some d \<and> day d = Some x"
  then have m: "length (conv (record_get_field_value p field subfield)) > 2 \<and>
         x = conv (record_get_field_value p field subfield) ! 2 \<and> match_day x"
    using date_day_matches by blast
  from m show "2 < length (conv (record_get_field_value p field subfield))" by blast
  from m show "x = conv (record_get_field_value p field subfield) ! 2" by blast
  from m show "match_day x" by blast
  from m show "\<exists>c d1 d2 d3. (x = [c, d1, d2, d3] \<or> x = [c, d1, d2, d3, CHR 0x0A]) \<and>
         c \<in> set ''012'' \<and> is_digit d1 \<and> is_digit d2 \<and> is_digit d3"
    using match_day_shape by blast
next
  assume b: "build_work enc conv site bfile personid old orcid p = Inr (Some w) \<and>
      publication_date w = Some d' \<and> day d' = Some y"
  then have "get_publication_date conv p = Some d'"
    using build_work_date by fastforce
  with b have m: "match_day y"
    using publication_date_day_matches by blast
  from m show "match_day y" .
  from m show "length y \<noteq> 2" by (rule match_day_not_two)
qed

text \<open>Claim C10 at a date whose parts are 2015, 03 and the four characters 0012: the
  day is set, and it is those four characters.\<close>

theorem C10_day_only_four_digits_witness:
  "get_date_from_field_number (\<lambda>s. [''2015'', ''03'', ''0012'']) (empty_paper\<lparr>v269c := ''2015-03-0012''\<rparr>)
      ''269'' ''c'' = Some \<lparr>year = ''2015'', month = Some ''03'', day = Some ''0012''\<rparr>
   \<and> match_day ''0012'' \<and> length ''0012'' \<noteq> 2"
proof -
  have e: "get_date_from_field_number (\<lambda>s. [''2015'', ''03'', ''0012''])
      (empty_paper\<lparr>v269c := ''2015-03-0012''\<rparr>) ''269'' ''c''
      = Some \<lparr>year = ''2015'', month = Some ''03'', day = Some ''0012''\<rparr>"
    by (simp add: get_date_from_field_number_def is_digit_def at_dollar_def)
  have "match_day ''0012''"
    using e C10_day_only_four_digits [of "\<lambda>s. [''2015'', ''03'', ''0012'']"
        "empty_paper\<lparr>v269c := ''2015-03-0012''\<rparr>" "''269''" "''c''"
        "\<lparr>year = ''2015'', month = Some ''03'', day = Some ''0012''\<rparr>" "''0012''"]
    by simp
  with e show ?thesis by simp
qed

text \<open>A date with the usual two-digit day: year and month are kept, the day is dropped.\<close>

lemma two_digit_day_dropped:
  "get_date_from_field_number (\<lambda>s. [''2015'', ''03'', ''12'']) (empty_paper\<lparr>v269c := ''2015-03-12''\<rparr>)
      ''269'' ''c'' = Some \<lparr>year = ''2015'', month = Some ''03'', day = None\<rparr>"
  by (simp add: get_date_from_field_number_def is_digit_def at_dollar_def)

lemma language_values:
  "map snd LANGUAGE_MAP = [''bg'', ''zh'', ''cs'', ''nl'', ''en'', ''eo'', ''fi'', ''fr'', ''de'', ''el'',
     ''he'', ''hu'', ''id'', ''it'', ''ja'', ''ko'', ''la'', ''no'', ''fa'', ''pl'', ''pt'', ''ro'', ''ru'',
     ''sk'', ''es'', ''sv'', ''tr'', ''uk'']"
  by (simp add: LANGUAGE_MAP_def)

lemma map_of_in_values: "map_of m k = Some v \<Longrightarrow> v \<in> set (map snd m)"
  by (induction m) (auto split: if_splits)

lemma get_language_code_cases:
  "(v041a p = [] \<longrightarrow> get_language_code enc p = Some ''en'') \<and>
   (\<forall>c. get_language_code enc p = Some c \<longrightarrow>
      (v041a p = [] \<and> c = ''en'') \<or>
      (\<exists>iso. map_of LANGUAGE_MAP (py_strip (py_lower (v041a p))) = Some iso \<and> c = enc (Some iso)))"
  by (auto simp: get_language_code_def record_get_field_value_def Let_def
      split: option.splits if_splits)

text \<open>
  Claim C8, as stated: a record whose MARC language (041 a) is absent \<^emph>\<open>or unmapped\<close>
  carries the language code \<^verbatim>\<open>"en"\<close>. The default sits in the \<^verbatim>\<open>else\<close> of
  \<^verbatim>\<open>if language:\<close>, so it covers the absent value only; a value that \<^verbatim>\<open>LANGUAGE_MAP\<close> does
  not know leaves the record without the key \<^verbatim>\<open>'language_code'\<close>.
\<close>

theorem C8_unmapped_language_counterexample:
  "map_of LANGUAGE_MAP (py_strip (py_lower ''klingon'')) = None
   \<and> build_work plain_enc (\<lambda>s. [s]) ''http://x'' None 7 nothing_known ''0000-0001''
       (empty_paper\<lparr>v041a := ''klingon'', recid := 12\<rparr>)
     = Inr (Some (bare_work ''http://x/record/12'' [(''other-id'', ''http://x/record/12'')] None))
   \<and> language_code (bare_work ''http://x/record/12'' [(''other-id'', ''http://x/record/12'')] None)
     \<noteq> Some ''en''"
  by code_simp

text \<open>
  Claim C8, amended: a work submission record built from a MARC record with no language
  value carries the language code \<^verbatim>\<open>"en"\<close>; and whenever a work submission record
  carries a language code, it is either that default or the two-letter ISO 639-1 code
  that \<^verbatim>\<open>LANGUAGE_MAP\<close> gives for the lowercased, stripped language value, passed through
  the encoder.
\<close>

theorem C8_language_code:
  assumes "build_work enc conv site bfile personid old orcid p = Inr (Some w)"
  shows "(v041a p = [] \<longrightarrow> language_code w = Some ''en'') \<and>
   (\<forall>c. language_code w = Some c \<longrightarrow>
      (v041a p = [] \<and> c = ''en'') \<or>
      (\<exists>iso \<in> set [''bg'', ''zh'', ''cs'', ''nl'', ''en'', ''eo'', ''fi'', ''fr'', ''de'', ''el'',
          ''he'', ''hu'', ''id'', ''it'', ''ja'', ''ko'', ''la'', ''no'', ''fa'', ''pl'', ''pt'', ''ro'',
          ''ru'', ''sk'', ''es'', ''sv'', ''tr'', ''uk''].
         map_of LANGUAGE_MAP (py_strip (py_lower (v041a p))) = Some iso \<and> c = enc (Some iso)))"
proof -
  have l: "language_code w = get_language_code enc p"
    using assms by (rule build_work_language)
  show ?thesis
    unfolding l language_values [symmetric]
    using get_language_code_cases [of p enc] map_of_in_values [of LANGUAGE_MAP]
    by blast
qed

text \<open>The amended claim at a record without a language value.\<close>

theorem C8_language_code_witness:
  "build_work plain_enc (\<lambda>s. [s]) ''http://x'' None 7 nothing_known ''0000-0001''
       (empty_paper\<lparr>recid := 12\<rparr>)
     = Inr (Some (bare_work ''http://x/record/12'' [(''other-id'', ''http://x/record/12'')]
         (Some ''en'')))
   \<and> language_code (bare_work ''http://x/record/12'' [(''other-id'', ''http://x/record/12'')]
         (Some ''en'')) = Some ''en''"
proof -
  have e: "build_work plain_enc (\<lambda>s. [s]) ''http://x'' None 7 nothing_known ''0000-0001''
       (empty_paper\<lparr>recid := 12\<rparr>)
     = Inr (Some (bare_work ''http://x/record/12'' [(''other-id'', ''http://x/record/12'')]
         (Some ''en'')))"
    by code_simp
  have v: "v041a (empty_paper\<lparr>recid := 12\<rparr>) = []"
    by (simp add: empty_paper_def)
  from C8_language_code [OF e] v show ?thesis
    using e by blast
qed

text \<open>A mapped value: \<^verbatim>\<open>" French "\<close> is lowercased, stripped and mapped to \<^verbatim>\<open>"fr"\<close>.\<close>

lemma french_language_code:
  "get_language_code plain_enc (empty_paper\<lparr>v041a := '' French ''\<rparr>) = Some ''fr''"
  by code_simp

section \<open>Results about the batch builder\<close>

lemma dictionaries_loop_sizes:
  "0 < n \<Longrightarrow> length acc < n \<Longrightarrow> dictionaries_loop n body k acc ps = (bs, r) \<Longrightarrow>
   \<forall>b \<in> set bs. 0 < length b \<and> length b \<le> n"
proof (induction ps arbitrary: k acc bs r)
  case Nil
  then show ?case by (auto split: if_splits)
next
  case (Cons p ps)
  show ?case
  proof (cases "body k p")
    case (Inl e)
    with Cons.prems show ?thesis by simp
  next
    case (Inr opt)
    show ?thesis
    proof (cases opt)
      case None
      with Inr Cons show ?thesis by simp
    next
      case (Some wd)
      show ?thesis
      proof (cases "length (acc @ [wd]) = n")
        case True
        obtain bs' r' where rec: "dictionaries_loop n body (Suc k) [] ps = (bs', r')"
          by (cases "dictionaries_loop n body (Suc k) [] ps")
        with Cons.prems Inr Some True have bs: "bs = (acc @ [wd]) # bs'"
          by (simp add: Let_def)
        from Cons.IH [OF Cons.prems(1) _ rec] Cons.prems(1)
        have "\<forall>b \<in> set bs'. 0 < length b \<and> length b \<le> n" by simp
        with bs True show ?thesis by auto
      next
        case False
        with Cons.prems have lt: "length (acc @ [wd]) < n" by simp
        from Cons.prems Inr Some False
        have "dictionaries_loop n body (Suc k) (acc @ [wd]) ps = (bs, r)"
          by (simp add: Let_def)
        from Cons.IH [OF Cons.prems(1) lt this] show ?thesis .
      qed
    qed
  qed
qed

lemma dictionaries_loop_concat:
  "0 < n \<Longrightarrow> length acc < n \<Longrightarrow> dictionaries_loop n body k acc ps = (bs, None) \<Longrightarrow>
   \<exists>full rest. bs = full @ (if rest = [] then [] else [rest]) \<and> (\<forall>b \<in> set full. length b = n)
      \<and> length rest < n \<and> concat full @ rest = acc @ submission_records body k ps"
proof (induction ps arbitrary: k acc bs)
  case Nil
  show ?case
  proof (cases "acc = []")
    case True
    with Nil show ?thesis by (intro exI [of _ "[]"]) simp
  next
    case False
    with Nil have "bs = [acc]" by simp
    with Nil False show ?thesis
      by (intro exI [of _ "[]"] exI [of _ acc]) simp
  qed
next
  case (Cons p ps)
  show ?case
  proof (cases "body k p")
    case (Inl e)
    with Cons.prems show ?thesis by simp
  next
    case (Inr opt)
    show ?thesis
    proof (cases opt)
      case None
      with Inr Cons.prems have "dictionaries_loop n body (Suc k) acc ps = (bs, None)" by simp
      from Cons.IH [OF Cons.prems(1,2) this] Inr None show ?thesis by simp
    next
      case (Some wd)
      show ?thesis
      proof (cases "length (acc @ [wd]) = n")
        case True
        obtain bs' r' where rec: "dictionaries_loop n body (Suc k) [] ps = (bs', r')"
          by (cases "dictionaries_loop n body (Suc k) [] ps")
        with Cons.prems Inr Some True have bs: "bs = (acc @ [wd]) # bs'" and r': "r' = None"
          by (simp_all add: Let_def)
        from Cons.prems(1) have z: "length ([]::work list) < n" by simp
        from Cons.IH [OF Cons.prems(1) z rec [unfolded r']]
        obtain full rest where fr: "bs' = full @ (if rest = [] then [] else [rest])"
          "\<forall>b \<in> set full. length b = n" "length rest < n"
          "concat full @ rest = [] @ submission_records body (Suc k) ps" by blast
        show ?thesis
          apply (rule exI [of _ "(acc @ [wd]) # full"])
          apply (rule exI [of _ rest])
          using fr bs True Inr Some by simp
      next
        case False
        with Cons.prems have lt: "length (acc @ [wd]) < n" by simp
        from Cons.prems Inr Some False
        have "dictionaries_loop n body (Suc k) (acc @ [wd]) ps = (bs, None)"
          by (simp add: Let_def)
        from Cons.IH [OF Cons.prems(1) lt this] Inr Some show ?thesis by simp
      qed
    qed
  qed
qed

text \<open>
  Where the generator runs to its end, it does what the batch builder is meant to do.
  For every sequence of candidate works and every batch size \<open>n\<close> of at least one
  (\<^verbatim>\<open>ORCID_SINGLE_REQUEST_WORKS\<close> is 1), every batch that \<^verbatim>\<open>_get_orcid_dictionaries\<close>
  yields has between one and \<open>n\<close> records; and when no record raises, the batches are
  full batches of exactly \<open>n\<close> records followed by one last batch of fewer than \<open>n\<close>
  records, which is there exactly when it is not empty, and the batches concatenated in
  order are the submission records of the works that are not skipped, in input order.
  This holds whatever the blacklist document holds at the time each record is processed.
\<close>

lemma batches_when_generator_ends:
  assumes "0 < n"
    and "get_orcid_dictionaries n enc conv site bfile_at papers personid old orcid = (batches, ended)"
  shows "(\<forall>b \<in> set batches. 0 < length b \<and> length b \<le> n) \<and>
    (ended = None \<longrightarrow>
       concat batches
         = submission_records (\<lambda>k. build_work enc conv site (bfile_at k) personid old orcid) 0 papers
       \<and> (\<exists>full rest. batches = full @ (if rest = [] then [] else [rest])
            \<and> (\<forall>b \<in> set full. length b = n) \<and> length rest < n))"
proof (intro conjI impI)
  let ?body = "\<lambda>k. build_work enc conv site (bfile_at k) personid old orcid"
  from assms have l: "dictionaries_loop n ?body 0 [] papers = (batches, ended)"
    by (simp add: get_orcid_dictionaries_def)
  from assms(1) have z: "length ([]::work list) < n" by simp
  from dictionaries_loop_sizes [OF assms(1) z l]
  show "\<forall>b \<in> set batches. 0 < length b \<and> length b \<le> n" .
  assume "ended = None"
  with l have l': "dictionaries_loop n ?body 0 [] papers = (batches, None)" by simp
  from dictionaries_loop_concat [OF assms(1) z l']
  obtain full rest where fr: "batches = full @ (if rest = [] then [] else [rest])"
    "\<forall>b \<in> set full. length b = n" "length rest < n"
    "concat full @ rest = [] @ submission_records ?body 0 papers" by blast
  from fr show "concat batches = submission_records ?body 0 papers"
    by (cases "rest = []") simp_all
  from fr show "\<exists>full rest. batches = full @ (if rest = [] then [] else [rest])
      \<and> (\<forall>b \<in> set full. length b = n) \<and> length rest < n"
    by blast
qed

text \<open>At the batch size of the source and three works, the second of which is skipped:
  two batches of one record each.\<close>

lemma batches_of_one:
  "0 < ORCID_SINGLE_REQUEST_WORKS
   \<and> get_orcid_dictionaries ORCID_SINGLE_REQUEST_WORKS plain_enc (\<lambda>s. [s]) ''http://x''
       (\<lambda>k. None) three_papers 7 (nothing_known\<lparr>doi_ids := {''10.1/known''}\<rparr>) ''0000-0001''
     = ([[bare_work ''http://x/record/1'' [(''doi'', ''10.1/x'')] (Some ''en'')],
         [bare_work ''http://x/record/3'' [(''other-id'', ''http://x/record/3'')] (Some ''en'')]],
        None)
   \<and> concat [[bare_work ''http://x/record/1'' [(''doi'', ''10.1/x'')] (Some ''en'')],
         [bare_work ''http://x/record/3'' [(''other-id'', ''http://x/record/3'')] (Some ''en'')]]
     = submission_records (\<lambda>k. build_work plain_enc (\<lambda>s. [s]) ''http://x'' None 7
         (nothing_known\<lparr>doi_ids := {''10.1/known''}\<rparr>) ''0000-0001'') 0 three_papers"
proof -
  have n: "0 < ORCID_SINGLE_REQUEST_WORKS"
    by (simp add: ORCID_SINGLE_REQUEST_WORKS_def)
  have e: "get_orcid_dictionaries ORCID_SINGLE_REQUEST_WORKS plain_enc (\<lambda>s. [s]) ''http://x''
       (\<lambda>k. None) three_papers 7 (nothing_known\<lparr>doi_ids := {''10.1/known''}\<rparr>) ''0000-0001''
     = ([[bare_work ''http://x/record/1'' [(''doi'', ''10.1/x'')] (Some ''en'')],
         [bare_work ''http://x/record/3'' [(''other-id'', ''http://x/record/3'')] (Some ''en'')]],
        None)"
    by code_simp
  from batches_when_generator_ends [OF n e] n e show ?thesis by blast
qed

text \<open>With a batch size of two and a fourth work: one full batch, then the last batch
  with the one record that is left.\<close>

lemma batches_of_two:
  "get_orcid_dictionaries 2 plain_enc (\<lambda>s. [s]) ''http://x'' (\<lambda>k. None)
       (three_papers @ [empty_paper\<lparr>recid := 4\<rparr>]) 7
       (nothing_known\<lparr>doi_ids := {''10.1/known''}\<rparr>) ''0000-0001''
     = ([[bare_work ''http://x/record/1'' [(''doi'', ''10.1/x'')] (Some ''en''),
          bare_work ''http://x/record/3'' [(''other-id'', ''http://x/record/3'')] (Some ''en'')],
         [bare_work ''http://x/record/4'' [(''other-id'', ''http://x/record/4'')] (Some ''en'')]],
        None)"
  by code_simp

text \<open>A blacklist document that comes to hold the third work's DOI while the generator
  is suspended after its first batch: the third work is skipped.\<close>

lemma blacklist_written_between_batches:
  "get_orcid_dictionaries ORCID_SINGLE_REQUEST_WORKS plain_enc (\<lambda>s. [s]) ''http://x''
       (\<lambda>k. if k = 0 then None else Some [(''0000-0001'', [''10.1/z''])])
       [empty_paper\<lparr>recid := 1, doi_for_paper := [''10.1/x'']\<rparr>,
        empty_paper\<lparr>recid := 2, doi_for_paper := [''10.1/z'']\<rparr>] 7 nothing_known ''0000-0001''
     = ([[bare_work ''http://x/record/1'' [(''doi'', ''10.1/x'')] (Some ''en'')]], None)"
  by code_simp

text \<open>
  Claim C6: for every input sequence of candidate works, the batches that
  \<^verbatim>\<open>_get_orcid_dictionaries\<close> yields, concatenated in order, are the submission records of
  the works that are not skipped, and a last partial batch is yielded when it is not
  empty. The code breaks this on a work with a field 359 \<^verbatim>\<open>9\<close>: the assignment
  \<^verbatim>\<open>work_dict['work_source']['work-source'] = ...\<close> reads a key that was never set
  (\<^verbatim>\<open>work_dict\<close> starts as \<^verbatim>\<open>{'work_title': {}}\<close>) and raises \<^verbatim>\<open>KeyError\<close>, which ends the
  generator. Of three works that are not skipped, the second with such a field, only the
  first is yielded; the third, whose record the loop body would build, never is.
\<close>

theorem C6_work_source_failing_input:
  "get_orcid_dictionaries ORCID_SINGLE_REQUEST_WORKS plain_enc (\<lambda>s. [s]) ''http://x'' (\<lambda>k. None)
       [empty_paper\<lparr>recid := 1\<rparr>, empty_paper\<lparr>recid := 2, v359_9 := ''arXiv''\<rparr>,
        empty_paper\<lparr>recid := 3\<rparr>] 7 nothing_known ''0000-0001''
     = ([[bare_work ''http://x/record/1'' [(''other-id'', ''http://x/record/1'')] (Some ''en'')]],
        Some KeyError)
   \<and> get_external_ids plain_enc None (empty_paper\<lparr>recid := 2, v359_9 := ''arXiv''\<rparr>)
       ''http://x/record/2'' nothing_known ''0000-0001'' = Inr [(''other-id'', ''http://x/record/2'')]
   \<and> build_work plain_enc (\<lambda>s. [s]) ''http://x'' None 7 nothing_known ''0000-0001''
       (empty_paper\<lparr>recid := 2, v359_9 := ''arXiv''\<rparr>) = Inl KeyError
   \<and> build_work plain_enc (\<lambda>s. [s]) ''http://x'' None 7 nothing_known ''0000-0001''
       (empty_paper\<lparr>recid := 3\<rparr>)
     = Inr (Some (bare_work ''http://x/record/3'' [(''other-id'', ''http://x/record/3'')]
         (Some ''en'')))"
  by code_simp

section \<open>Results about the push engine\<close>

lemma push_few_works_collision:
  assumes "collision_named (srv (requests_posted w) l) wrong_id"
  shows "push_few_works srv w doid l pid =
     ((if load_blacklist (blacklist_doc w) \<noteq> []
       then w\<lparr>requests_posted := Suc (requests_posted w),
              blacklist_doc :=
                Some (blacklist_record doid wrong_id (load_blacklist (blacklist_doc w)))\<rparr>
       else w\<lparr>requests_posted := Suc (requests_posted w)\<rparr>),
      (if shorter_list_of wrong_id l = [] then PBool True
       else PList (shorter_list_of wrong_id l)))"
  using assms by (simp add: push_few_works_def collision_named_def Let_def)

lemma push_few_works_401:
  assumes "status_code (srv (requests_posted w) l) = 401"
  shows "push_few_works srv w doid l pid =
     (w\<lparr>requests_posted := Suc (requests_posted w),
        token_rows := delete_token pid (token_rows w)\<rparr>, PBool True)"
  using assms by (simp add: push_few_works_def Let_def)

lemma push_few_works_posted:
  "requests_posted (fst (push_few_works srv w doid l pid)) = Suc (requests_posted w)"
  by (simp add: push_few_works_def Let_def split: option.splits)




lemma blacklist_record_same:
  "blacklist_get (blacklist_record doid wrong_id bl) doid = blacklist_get bl doid @ [wrong_id]"
  by (induction bl) (auto simp: blacklist_get_def)

lemma blacklist_record_other:
  "k \<noteq> doid \<Longrightarrow> blacklist_get (blacklist_record doid wrong_id bl) k = blacklist_get bl k"
  by (induction bl) (auto simp: blacklist_get_def)

lemma push_loop_PBool: "push_loop srv doid pid w (PBool b) = Some (w, b)"
  by (subst push_loop.simps) simp

lemma push_loop_PList:
  "push_loop srv doid pid w (PList l) =
     push_loop srv doid pid (fst (push_few_works srv w doid l pid))
       (snd (push_few_works srv w doid l pid))"
  by (subst push_loop.simps) (simp add: case_prod_beta)


lemma collision_response_names:
  "collision_named (collision_response ''10.1/x'') wrong_id \<longleftrightarrow> wrong_id = ''10.1/x''"
  by (auto simp: collision_named_def collision_response_def raises_http_error_def
      same_id_literal_def match_same_id_at_def)


text \<open>
  Claim C2, as stated: every collision response makes \<^verbatim>\<open>_push_few_works\<close> record the
  named value in the author's blacklist and write the blacklist out, also when no
  blacklist document or an empty one existed before. The update and the \<^verbatim>\<open>json.dump\<close>
  stand under \<^verbatim>\<open>if blacklist:\<close>. With no document, and with a document holding the empty
  object, the collision is resolved and the document is left as it was.
\<close>

theorem C2_empty_blacklist_counterexample:
  "collision_named (registry_holding ''10.1/x'' (requests_posted fresh_world)
       [bare_work ''u'' [(''doi'', ''10.1/x'')] None]) ''10.1/x''
   \<and> push_few_works (registry_holding ''10.1/x'') fresh_world ''0000-0001''
       [bare_work ''u'' [(''doi'', ''10.1/x'')] None] 7
     = (fresh_world\<lparr>requests_posted := 1\<rparr>, PBool True)
   \<and> blacklist_doc (fresh_world\<lparr>requests_posted := 1\<rparr>) = None
   \<and> push_few_works (registry_holding ''10.1/x'') (fresh_world\<lparr>blacklist_doc := Some []\<rparr>)
       ''0000-0001'' [bare_work ''u'' [(''doi'', ''10.1/x'')] None] 7
     = (fresh_world\<lparr>blacklist_doc := Some [], requests_posted := 1\<rparr>, PBool True)"
proof -
  have c: "collision_named (registry_holding ''10.1/x'' 0
       [bare_work ''u'' [(''doi'', ''10.1/x'')] None]) ''10.1/x''"
    by (simp add: registry_holding_def carries_def bare_work_def collision_response_names)
  have s: "shorter_list_of ''10.1/x'' [bare_work ''u'' [(''doi'', ''10.1/x'')] None] = []"
    by (simp add: shorter_list_of_def bare_work_def)
  have r0: "requests_posted fresh_world = 0" "blacklist_doc fresh_world = None"
    by (simp_all add: fresh_world_def)
  from c have c0: "collision_named (registry_holding ''10.1/x'' (requests_posted fresh_world)
       [bare_work ''u'' [(''doi'', ''10.1/x'')] None]) ''10.1/x''"
    by (simp add: r0)
  from c have c1: "collision_named (registry_holding ''10.1/x''
       (requests_posted (fresh_world\<lparr>blacklist_doc := Some []\<rparr>))
       [bare_work ''u'' [(''doi'', ''10.1/x'')] None]) ''10.1/x''"
    by (simp add: r0)
  show ?thesis
    using c0
    by (simp add: push_few_works_collision [of "registry_holding ''10.1/x''" fresh_world
          "[bare_work ''u'' [(''doi'', ''10.1/x'')] None]" "''10.1/x''", OF c0]
        push_few_works_collision [of "registry_holding ''10.1/x''"
          "fresh_world\<lparr>blacklist_doc := Some []\<rparr>" "[bare_work ''u'' [(''doi'', ''10.1/x'')] None]" "''10.1/x''", OF c1]
        s r0 load_blacklist_def)
qed

text \<open>
  Claim C2, amended: whenever a push receives a collision response naming a value and
  the blacklist document read at that moment holds a non-empty object,
  \<^verbatim>\<open>_push_few_works\<close> writes the document back before it returns, with the value appended
  to the author's list (a list of that value alone when the author had no entry) and
  every other author's list as it was.
\<close>

theorem C2_collision_recorded:
  assumes "collision_named (srv (requests_posted w) short_list) wrong_id"
    and "load_blacklist (blacklist_doc w) \<noteq> []"
  shows "\<exists>bl'. blacklist_doc (fst (push_few_works srv w doid short_list pid)) = Some bl'
     \<and> blacklist_get bl' doid = blacklist_get (load_blacklist (blacklist_doc w)) doid @ [wrong_id]
     \<and> (\<forall>k. k \<noteq> doid \<longrightarrow> blacklist_get bl' k = blacklist_get (load_blacklist (blacklist_doc w)) k)"
  using assms(2)
  by (simp add: push_few_works_collision [of srv w short_list wrong_id, OF assms(1)]
      blacklist_record_same blacklist_record_other)

text \<open>The amended claim where the document holds an entry of another author only: the
  author's entry is created.\<close>

theorem C2_collision_recorded_witness:
  "collision_named (registry_holding ''10.1/x''
       (requests_posted (fresh_world\<lparr>blacklist_doc := Some [(''0000-0002'', [''10.2/a''])]\<rparr>))
       [bare_work ''u'' [(''doi'', ''10.1/x'')] None]) ''10.1/x''
   \<and> load_blacklist (blacklist_doc (fresh_world\<lparr>blacklist_doc := Some [(''0000-0002'', [''10.2/a''])]\<rparr>))
       \<noteq> []
   \<and> (\<exists>bl'. blacklist_doc (fst (push_few_works (registry_holding ''10.1/x'')
           (fresh_world\<lparr>blacklist_doc := Some [(''0000-0002'', [''10.2/a''])]\<rparr>) ''0000-0001''
           [bare_work ''u'' [(''doi'', ''10.1/x'')] None] 7)) = Some bl'
        \<and> blacklist_get bl' ''0000-0001'' = [''10.1/x'']
        \<and> blacklist_get bl' ''0000-0002'' = [''10.2/a''])"
proof -
  have c: "collision_named (registry_holding ''10.1/x''
       (requests_posted (fresh_world\<lparr>blacklist_doc := Some [(''0000-0002'', [''10.2/a''])]\<rparr>))
       [bare_work ''u'' [(''doi'', ''10.1/x'')] None]) ''10.1/x''"
    by (simp add: registry_holding_def carries_def bare_work_def collision_response_names)
  have n: "load_blacklist (blacklist_doc
       (fresh_world\<lparr>blacklist_doc := Some [(''0000-0002'', [''10.2/a''])]\<rparr>)) \<noteq> []"
    by (simp add: load_blacklist_def)
  have g: "blacklist_get (load_blacklist (blacklist_doc
       (fresh_world\<lparr>blacklist_doc := Some [(''0000-0002'', [''10.2/a''])]\<rparr>))) ''0000-0001'' = []"
    "blacklist_get (load_blacklist (blacklist_doc
       (fresh_world\<lparr>blacklist_doc := Some [(''0000-0002'', [''10.2/a''])]\<rparr>))) ''0000-0002''
       = [''10.2/a'']"
    by (simp_all add: load_blacklist_def blacklist_get_def)
  from C2_collision_recorded [of "registry_holding ''10.1/x''"
      "fresh_world\<lparr>blacklist_doc := Some [(''0000-0002'', [''10.2/a''])]\<rparr>"
      "[bare_work ''u'' [(''doi'', ''10.1/x'')] None]" "''10.1/x''" "''0000-0001''" 7, OF c n]
  obtain bl' where b: "blacklist_doc (fst (push_few_works (registry_holding ''10.1/x'')
           (fresh_world\<lparr>blacklist_doc := Some [(''0000-0002'', [''10.2/a''])]\<rparr>) ''0000-0001''
           [bare_work ''u'' [(''doi'', ''10.1/x'')] None] 7)) = Some bl'"
    "blacklist_get bl' ''0000-0001'' = blacklist_get (load_blacklist (blacklist_doc
       (fresh_world\<lparr>blacklist_doc := Some [(''0000-0002'', [''10.2/a''])]\<rparr>))) ''0000-0001''
       @ [''10.1/x'']"
    "\<forall>k. k \<noteq> ''0000-0001'' \<longrightarrow> blacklist_get bl' k = blacklist_get (load_blacklist (blacklist_doc
       (fresh_world\<lparr>blacklist_doc := Some [(''0000-0002'', [''10.2/a''])]\<rparr>))) k"
    by blast
  from b(3) have "blacklist_get bl' ''0000-0002'' = blacklist_get (load_blacklist (blacklist_doc
       (fresh_world\<lparr>blacklist_doc := Some [(''0000-0002'', [''10.2/a''])]\<rparr>))) ''0000-0002''"
    by simp
  with b(1,2) g have "blacklist_doc (fst (push_few_works (registry_holding ''10.1/x'')
           (fresh_world\<lparr>blacklist_doc := Some [(''0000-0002'', [''10.2/a''])]\<rparr>) ''0000-0001''
           [bare_work ''u'' [(''doi'', ''10.1/x'')] None] 7)) = Some bl'
        \<and> blacklist_get bl' ''0000-0001'' = [''10.1/x'']
        \<and> blacklist_get bl' ''0000-0002'' = [''10.2/a'']"
    by simp
  with c n show ?thesis by blast
qed

lemma refusing_never_ends:
  assumes "push_loop srv doid pid w result = Some y"
  shows "srv = registry_refusing ''10.1/zzz'' \<longrightarrow>
     result = PList [bare_work ''u'' [(''doi'', ''10.1/x'')] None] \<longrightarrow> False"
proof (rule push_loop.raw_induct [where P = "\<lambda>srv doid pid w result y.
    srv = registry_refusing ''10.1/zzz'' \<longrightarrow>
     result = PList [bare_work ''u'' [(''doi'', ''10.1/x'')] None] \<longrightarrow> False", OF _ assms],
    goal_cases)
  case (1 lp srv doid pid w result y)
  show ?case
  proof (intro impI)
    assume s: "srv = registry_refusing ''10.1/zzz''"
      and r: "result = PList [bare_work ''u'' [(''doi'', ''10.1/x'')] None]"
    have c: "collision_named (srv (requests_posted w)
        [bare_work ''u'' [(''doi'', ''10.1/x'')] None]) ''10.1/zzz''"
      unfolding s
      by (simp add: registry_refusing_def collision_named_def collision_response_def
          raises_http_error_def same_id_literal_def match_same_id_at_def)
    have sh: "shorter_list_of ''10.1/zzz'' [bare_work ''u'' [(''doi'', ''10.1/x'')] None]
        = [bare_work ''u'' [(''doi'', ''10.1/x'')] None]"
      by (simp add: shorter_list_of_def bare_work_def)
    from 1(2) obtain w1 where
      "lp srv doid pid w1 (PList [bare_work ''u'' [(''doi'', ''10.1/x'')] None]) = Some y"
      unfolding r
      by (simp add: push_few_works_collision [where srv = srv and w = w
            and l = "[bare_work ''u'' [(''doi'', ''10.1/x'')] None]"
            and wrong_id = "''10.1/zzz''", OF c] sh)
    from 1(1) [OF this] s show False by simp
  qed
qed

text \<open>
  A response that names a value carried by no record of the batch is not a collision of
  that batch. On such a response the list comprehension drops nothing, the same list is
  returned and pushed again, and against a registry that keeps answering so the loop
  never ends.
\<close>

lemma push_loop_unending_when_not_carried:
  "collision_named (registry_refusing ''10.1/zzz'' 0
       [bare_work ''u'' [(''doi'', ''10.1/x'')] None]) ''10.1/zzz''
   \<and> length (shorter_list_of ''10.1/zzz'' [bare_work ''u'' [(''doi'', ''10.1/x'')] None])
     = length [bare_work ''u'' [(''doi'', ''10.1/x'')] None]
   \<and> push_loop (registry_refusing ''10.1/zzz'') ''0000-0001'' 7 fresh_world
       (PList [bare_work ''u'' [(''doi'', ''10.1/x'')] None]) = None"
proof -
  have c: "collision_named (registry_refusing ''10.1/zzz'' 0
       [bare_work ''u'' [(''doi'', ''10.1/x'')] None]) ''10.1/zzz''"
    by (simp add: registry_refusing_def collision_named_def collision_response_def
        raises_http_error_def same_id_literal_def match_same_id_at_def)
  have sh: "shorter_list_of ''10.1/zzz'' [bare_work ''u'' [(''doi'', ''10.1/x'')] None]
        = [bare_work ''u'' [(''doi'', ''10.1/x'')] None]"
    by (simp add: shorter_list_of_def bare_work_def)
  have "push_loop (registry_refusing ''10.1/zzz'') ''0000-0001'' 7 fresh_world
       (PList [bare_work ''u'' [(''doi'', ''10.1/x'')] None]) = None"
  proof (cases "push_loop (registry_refusing ''10.1/zzz'') ''0000-0001'' 7 fresh_world
       (PList [bare_work ''u'' [(''doi'', ''10.1/x'')] None])")
    case None
    then show ?thesis .
  next
    case (Some y)
    from refusing_never_ends [OF Some] show ?thesis by simp
  qed
  with c sh show ?thesis by simp
qed




lemma push_few_works_False:
  assumes "push_few_works srv w doid l pid = (w', PBool False)"
  shows "unmatched_error (srv (requests_posted w) l)"
  using assms
  by (auto simp: push_few_works_def unmatched_error_def Let_def split: option.splits if_splits)

lemma push_loop_False:
  assumes "push_loop srv doid pid w result = Some y"
  shows "(result = PBool False \<longrightarrow> (\<exists>k l. unmatched_error (srv k l))) \<longrightarrow> \<not> snd y \<longrightarrow>
     (\<exists>k l. unmatched_error (srv k l))"
proof (rule push_loop.raw_induct [where P = "\<lambda>srv doid pid w result y.
    (result = PBool False \<longrightarrow> (\<exists>k l. unmatched_error (srv k l))) \<longrightarrow> \<not> snd y \<longrightarrow>
     (\<exists>k l. unmatched_error (srv k l))", OF _ assms], goal_cases)
  case (1 lp srv doid pid w result y)
  show ?case
  proof (cases result)
    case (PBool b)
    with 1(2) show ?thesis by auto
  next
    case (PList l)
    obtain w1 r where pf: "push_few_works srv w doid l pid = (w1, r)"
      by (cases "push_few_works srv w doid l pid")
    with 1(2) PList have "lp srv doid pid w1 r = Some y" by simp
    from 1(1) [OF this] push_few_works_False [of srv w doid l pid w1] pf
    show ?thesis by blast
  qed
qed

text \<open>
  Claim C4: on a response with status 401, \<^verbatim>\<open>_push_few_works\<close> calls
  \<^verbatim>\<open>delete_token\<close> for the author and returns \<^verbatim>\<open>True\<close>; the loop for the batch ends
  with that result after this one request. The lines after the loop set \<^verbatim>\<open>success\<close>
  to false only for a false result, and the loop for a batch gives a false result only
  when the registry sent an error response that is neither a 401 nor a recognised
  collision: a 401 never makes the result of the job false.
\<close>

theorem C4_unauthorized_is_success:
  "(status_code (srv (requests_posted w) short_list) = 401 \<longrightarrow>
      push_few_works srv w doid short_list pid
        = (w\<lparr>requests_posted := Suc (requests_posted w),
             token_rows := delete_token pid (token_rows w)\<rparr>, PBool True)
      \<and> push_loop srv doid pid w (PList short_list)
        = Some (w\<lparr>requests_posted := Suc (requests_posted w),
                  token_rows := delete_token pid (token_rows w)\<rparr>, True))
   \<and> (push_loop srv doid pid w (PList short_list) = Some (w', False) \<longrightarrow>
        (\<exists>k l. unmatched_error (srv k l)))
   \<and> fst (after_batch success result) = (success \<and> result)"
proof (intro conjI impI)
  assume a: "status_code (srv (requests_posted w) short_list) = 401"
  note p = push_few_works_401 [of srv w short_list doid pid, OF a]
  show "push_few_works srv w doid short_list pid
        = (w\<lparr>requests_posted := Suc (requests_posted w),
             token_rows := delete_token pid (token_rows w)\<rparr>, PBool True)"
    by (rule p)
  have "push_loop srv doid pid w (PList short_list)
      = push_loop srv doid pid (w\<lparr>requests_posted := Suc (requests_posted w),
            token_rows := delete_token pid (token_rows w)\<rparr>) (PBool True)"
    by (subst push_loop_PList) (simp add: p)
  then show "push_loop srv doid pid w (PList short_list)
        = Some (w\<lparr>requests_posted := Suc (requests_posted w),
                  token_rows := delete_token pid (token_rows w)\<rparr>, True)"
    by (simp add: push_loop_PBool)
next
  assume "push_loop srv doid pid w (PList short_list) = Some (w', False)"
  from push_loop_False [OF this] show "\<exists>k l. unmatched_error (srv k l)" by simp
next
  show "fst (after_batch success result) = (success \<and> result)"
    by (simp add: after_batch_def)
qed

text \<open>Claim C4 at the first state of the examples and a registry that answers 401: the
  author's row is gone from the token table, the loop gives \<^verbatim>\<open>True\<close>, and \<^verbatim>\<open>success\<close>
  stays true.\<close>

theorem C4_unauthorized_is_success_witness:
  "status_code (registry_unauthorized (requests_posted fresh_world)
       [bare_work ''u'' [(''doi'', ''10.1/x'')] None]) = 401
   \<and> push_loop registry_unauthorized ''0000-0001'' 7 fresh_world
       (PList [bare_work ''u'' [(''doi'', ''10.1/x'')] None])
     = Some (\<lparr>blacklist_doc = None, token_rows = [], requests_posted = 1\<rparr>, True)
   \<and> fst (after_batch True True) = True"
proof -
  have h: "status_code (registry_unauthorized (requests_posted fresh_world)
       [bare_work ''u'' [(''doi'', ''10.1/x'')] None]) = 401"
    by (simp add: registry_unauthorized_def)
  from C4_unauthorized_is_success [of registry_unauthorized fresh_world
      "[bare_work ''u'' [(''doi'', ''10.1/x'')] None]" "''0000-0001''" 7 _ True True] h
  show ?thesis
    by (simp add: fresh_world_def delete_token_def)
qed

text \<open>What the credential store of the spec does on \<^verbatim>\<open>delete_token\<close>: no row of the author
  is left.\<close>

lemma delete_token_removes: "pid \<notin> fst ` set (delete_token pid rows)"
  by (auto simp: delete_token_def)

text \<open>
  Claim C5: when a collision response names a value and no record of the batch is left
  once the records carrying it are dropped, \<^verbatim>\<open>_push_few_works\<close> returns \<^verbatim>\<open>True\<close>, and
  the loop for the batch ends with \<^verbatim>\<open>True\<close> after that one refused request.
\<close>

theorem C5_empty_after_collision_is_success:
  assumes "collision_named (srv (requests_posted w) short_list) wrong_id"
    and "shorter_list_of wrong_id short_list = []"
  shows "snd (push_few_works srv w doid short_list pid) = PBool True
     \<and> (\<exists>w'. push_loop srv doid pid w (PList short_list) = Some (w', True)
          \<and> requests_posted w' = Suc (requests_posted w))"
proof -
  have s: "snd (push_few_works srv w doid short_list pid) = PBool True"
    by (simp add: push_few_works_collision [of srv w short_list wrong_id, OF assms(1)] assms(2))
  have "push_loop srv doid pid w (PList short_list)
      = push_loop srv doid pid (fst (push_few_works srv w doid short_list pid)) (PBool True)"
    by (subst push_loop_PList) (simp add: s)
  then have "push_loop srv doid pid w (PList short_list)
      = Some (fst (push_few_works srv w doid short_list pid), True)"
    by (simp add: push_loop_PBool)
  with s push_few_works_posted [of srv w doid short_list pid] show ?thesis by blast
qed

text \<open>Claim C5 at a batch of one record whose DOI the registry already holds.\<close>

theorem C5_empty_after_collision_is_success_witness:
  "collision_named (registry_holding ''10.1/x'' (requests_posted fresh_world)
       [bare_work ''u'' [(''doi'', ''10.1/x'')] None]) ''10.1/x''
   \<and> shorter_list_of ''10.1/x'' [bare_work ''u'' [(''doi'', ''10.1/x'')] None] = []
   \<and> snd (push_few_works (registry_holding ''10.1/x'') fresh_world ''0000-0001''
       [bare_work ''u'' [(''doi'', ''10.1/x'')] None] 7) = PBool True
   \<and> (\<exists>w'. push_loop (registry_holding ''10.1/x'') ''0000-0001'' 7 fresh_world
          (PList [bare_work ''u'' [(''doi'', ''10.1/x'')] None]) = Some (w', True))"
proof -
  have c: "collision_named (registry_holding ''10.1/x'' (requests_posted fresh_world)
       [bare_work ''u'' [(''doi'', ''10.1/x'')] None]) ''10.1/x''"
    by (simp add: registry_holding_def carries_def bare_work_def collision_response_names)
  have s: "shorter_list_of ''10.1/x'' [bare_work ''u'' [(''doi'', ''10.1/x'')] None] = []"
    by (simp add: shorter_list_of_def bare_work_def)
  from C5_empty_after_collision_is_success [of "registry_holding ''10.1/x''" fresh_world
      "[bare_work ''u'' [(''doi'', ''10.1/x'')] None]" "''10.1/x''" "''0000-0001''" 7, OF c s] c s
  show ?thesis by blast
qed

section \<open>Results about the fetch\<close>

lemma retrying_call_returns:
  "fn n = Inr v \<Longrightarrow> retrying_call r m stop fn n sl = (n, sl, Inr v)"
  by (subst retrying_call.simps) simp

lemma retrying_call_rejected:
  "fn n = Inl e \<Longrightarrow> \<not> r e \<Longrightarrow> retrying_call r m stop fn n sl = (n, sl, Inl (RetryError e))"
  by (subst retrying_call.simps) simp

lemma retrying_call_stops:
  "fn n = Inl e \<Longrightarrow> stop \<le> n \<Longrightarrow> retrying_call r m stop fn n sl = (n, sl, Inl (RetryError e))"
  by (subst retrying_call.simps) simp

lemma retrying_call_again:
  "fn n = Inl e \<Longrightarrow> r e \<Longrightarrow> n < stop \<Longrightarrow>
   retrying_call r m stop fn n sl
     = retrying_call r m stop fn (n + 1) (sl @ [exponential_sleep m n])"
  by (subst retrying_call.simps) simp

lemma retrying_call_attempts:
  "n \<le> stop \<Longrightarrow> fst (retrying_call r m stop fn n sl) \<le> stop"
proof (induction r m stop fn n sl rule: retrying_call.induct)
  case (1 r m stop fn n sl)
  show ?case
  proof (cases "fn n")
    case (Inr v)
    with 1(2) show ?thesis by (simp add: retrying_call_returns)
  next
    case (Inl e)
    show ?thesis
    proof (cases "r e \<and> n < stop")
      case True
      with 1(1) [OF Inl] have "fst (retrying_call r m stop fn (n + 1)
          (sl @ [exponential_sleep m n])) \<le> stop" by simp
      with True Inl show ?thesis by (simp add: retrying_call_again)
    next
      case False
      then consider "\<not> r e" | "stop \<le> n" by fastforce
      then show ?thesis
        using Inl 1(2) by cases (simp_all add: retrying_call_rejected retrying_call_stops)
    qed
  qed
qed

lemma retry_again_1:
  assumes "fn 1 = Inl e" "r e"
  shows "retrying_call r 250 3 fn 1 [] = retrying_call r 250 3 fn 2 [500]"
proof -
  have s: "exponential_sleep 250 1 = 500"
    by (simp add: exponential_sleep_def MAX_WAIT_def)
  have n: "(1::nat) + 1 = 2" by simp
  have l: "(1::nat) < 3" by simp
  from retrying_call_again [of fn 1 e r 3 250 "[]", OF assms l] show ?thesis
    unfolding s n append_Nil .
qed

lemma retry_again_2:
  assumes "fn 2 = Inl e" "r e"
  shows "retrying_call r 250 3 fn 2 [500] = retrying_call r 250 3 fn 3 [500, 1000]"
proof -
  have s: "exponential_sleep 250 2 = 1000"
    by (simp add: exponential_sleep_def MAX_WAIT_def)
  have n: "(2::nat) + 1 = 3" by simp
  have l: "(2::nat) < 3" by simp
  have a: "[500::nat] @ [1000] = [500, 1000]" by simp
  from retrying_call_again [of fn 2 e r 3 250 "[500]", OF assms l] show ?thesis
    unfolding s n a .
qed

lemma retry_1_fails:
  assumes "fn 1 = Inl e" "\<not> retry_if_timeout_error e"
  shows "retrying_call retry_if_timeout_error 250 3 fn 1 [] = (1, [], Inl (RetryError e))"
  using retrying_call_rejected [of fn 1 e retry_if_timeout_error 250 3 "[]", OF assms] .

lemma retry_1_returns:
  assumes "fn 1 = Inr v"
  shows "retrying_call retry_if_timeout_error 250 3 fn 1 [] = (1, [], Inr v)"
  using retrying_call_returns [of fn 1 v retry_if_timeout_error 250 3 "[]", OF assms] .

lemma retry_2_fails:
  assumes "fn 1 = Inl t1" "retry_if_timeout_error t1" "fn 2 = Inl e" "\<not> retry_if_timeout_error e"
  shows "retrying_call retry_if_timeout_error 250 3 fn 1 [] = (2, [500], Inl (RetryError e))"
proof -
  have "retrying_call retry_if_timeout_error 250 3 fn 1 []
      = retrying_call retry_if_timeout_error 250 3 fn 2 [500]"
    using assms(1,2) by (rule retry_again_1)
  also have "\<dots> = (2, [500], Inl (RetryError e))"
    using retrying_call_rejected [of fn 2 e retry_if_timeout_error 250 3 "[500]", OF assms(3,4)] .
  finally show ?thesis .
qed

lemma retry_2_returns:
  assumes "fn 1 = Inl t1" "retry_if_timeout_error t1" "fn 2 = Inr v"
  shows "retrying_call retry_if_timeout_error 250 3 fn 1 [] = (2, [500], Inr v)"
proof -
  have "retrying_call retry_if_timeout_error 250 3 fn 1 []
      = retrying_call retry_if_timeout_error 250 3 fn 2 [500]"
    using assms(1,2) by (rule retry_again_1)
  also have "\<dots> = (2, [500], Inr v)"
    using retrying_call_returns [of fn 2 v retry_if_timeout_error 250 3 "[500]", OF assms(3)] .
  finally show ?thesis .
qed

lemma retry_3_fails:
  assumes "fn 1 = Inl t1" "retry_if_timeout_error t1" "fn 2 = Inl t2" "retry_if_timeout_error t2"
    "fn 3 = Inl e"
  shows "retrying_call retry_if_timeout_error 250 3 fn 1 [] = (3, [500, 1000], Inl (RetryError e))"
proof -
  have l: "(3::nat) \<le> 3" by simp
  have "retrying_call retry_if_timeout_error 250 3 fn 1 []
      = retrying_call retry_if_timeout_error 250 3 fn 2 [500]"
    using assms(1,2) by (rule retry_again_1)
  also have "\<dots> = retrying_call retry_if_timeout_error 250 3 fn 3 [500, 1000]"
    using assms(3,4) by (rule retry_again_2)
  also have "\<dots> = (3, [500, 1000], Inl (RetryError e))"
    using retrying_call_stops [of fn 3 e 3 retry_if_timeout_error 250 "[500, 1000]", OF assms(5) l] .
  finally show ?thesis .
qed

lemma retry_3_returns:
  assumes "fn 1 = Inl t1" "retry_if_timeout_error t1" "fn 2 = Inl t2" "retry_if_timeout_error t2"
    "fn 3 = Inr v"
  shows "retrying_call retry_if_timeout_error 250 3 fn 1 [] = (3, [500, 1000], Inr v)"
proof -
  have "retrying_call retry_if_timeout_error 250 3 fn 1 []
      = retrying_call retry_if_timeout_error 250 3 fn 2 [500]"
    using assms(1,2) by (rule retry_again_1)
  also have "\<dots> = retrying_call retry_if_timeout_error 250 3 fn 3 [500, 1000]"
    using assms(3,4) by (rule retry_again_2)
  also have "\<dots> = (3, [500, 1000], Inr v)"
    using retrying_call_returns [of fn 3 v retry_if_timeout_error 250 3 "[500, 1000]", OF assms(5)] .
  finally show ?thesis .
qed

lemma get_extids_one_attempt:
  "orcid_id \<noteq> [] \<Longrightarrow> api 0 = Inl e \<Longrightarrow> is_request_exception e \<Longrightarrow>
   get_extids_from_orcid get_doi api orcid_id = (1, Inr empty_ext_ids_dict)"
  by (simp add: get_extids_from_orcid_def)

lemma get_dois_works_on_retry_error:
  "orcid_id \<noteq> [] \<Longrightarrow> token \<noteq> [] \<Longrightarrow>
   retrying_call retry_if_timeout_error 250 3 (\<lambda>k. get_works_from_orcid (net k)) 1 []
     = (attempts, sleeps, Inl x) \<Longrightarrow>
   get_dois_from_orcid_api_v2_1_works orcid_id token net json_of = (attempts, sleeps, None)"
  by (simp add: get_dois_from_orcid_api_v2_1_works_def)

text \<open>
  Claim C7, as stated: the fetch of an author's already-known remote identifiers retries
  connection and read timeouts, up to three attempts. The snapshot that the push
  filters with comes from \<^verbatim>\<open>_get_extids_from_orcid\<close>, which calls \<^verbatim>\<open>read_record_public\<close>
  once inside \<^verbatim>\<open>try ... except RequestException\<close>: after a read timeout it makes no
  second call, though the second call would have returned a profile, and it returns the
  empty snapshot.
\<close>

theorem C7_snapshot_fetch_counterexample:
  "retry_if_timeout_error ReadTimeout
   \<and> api_timeout_once 0 = Inl ReadTimeout
   \<and> api_timeout_once 1 = Inr (Some one_doi_profile)
   \<and> get_extids_from_orcid (\<lambda>v. Some v) api_timeout_once ''0000-0001''
     = (1, Inr empty_ext_ids_dict)"
  by (simp add: retry_if_timeout_error_def api_timeout_once_def get_extids_from_orcid_def
      is_request_exception_def)

lemma get_extids_at_most_one: "fst (get_extids_from_orcid get_doi api orcid_id) \<le> 1"
  by (simp add: get_extids_from_orcid_def split: sum.splits option.splits)

lemma get_dois_works_on_return:
  "orcid_id \<noteq> [] \<Longrightarrow> token \<noteq> [] \<Longrightarrow>
   retrying_call retry_if_timeout_error 250 3 (\<lambda>k. get_works_from_orcid (net k)) 1 []
     = (attempts, sleeps, Inr res) \<Longrightarrow>
   get_dois_from_orcid_api_v2_1_works orcid_id token net json_of
     = (attempts, sleeps, json_of (text_body res))"
  by (simp add: get_dois_from_orcid_api_v2_1_works_def)

text \<open>
  Claim C7, amended. \<^verbatim>\<open>_get_extids_from_orcid\<close> makes at most one attempt: any request
  exception, a timeout too, gives the empty snapshot at once. The retries belong to the
  request of \<^verbatim>\<open>get_dois_from_orcid_api_v2_1\<close> (\<^verbatim>\<open>low_level=True\<close>): it is attempted at
  most three times; an attempt that returns ends the call with its value; an attempt is
  repeated only after a connection or read timeout, after a sleep of 250 * 2^k
  milliseconds following attempt k (500, then 1000); any other error ends the call at
  that attempt, and a third failure ends it, each time with \<^verbatim>\<open>RetryError\<close> wrapping the
  last error, upon which the function returns \<^verbatim>\<open>[]\<close>; a returned response goes on to
  \<^verbatim>\<open>res.json()\<close>.
\<close>

theorem C7_retry_only_on_doi_request:
  "(orcid_id \<noteq> [] \<and> api 0 = Inl e \<and> is_request_exception e \<longrightarrow>
      get_extids_from_orcid get_doi api orcid_id = (1, Inr empty_ext_ids_dict))
   \<and> fst (get_extids_from_orcid get_doi api orcid_id) \<le> 1
   \<and> fst (retrying_call retry_if_timeout_error 250 3 fn 1 []) \<le> 3
   \<and> (fn 1 = Inr v \<longrightarrow>
        retrying_call retry_if_timeout_error 250 3 fn 1 [] = (1, [], Inr v))
   \<and> (fn 1 = Inl e1 \<and> \<not> retry_if_timeout_error e1 \<longrightarrow>
        retrying_call retry_if_timeout_error 250 3 fn 1 [] = (1, [], Inl (RetryError e1)))
   \<and> (fn 1 = Inl e1 \<and> retry_if_timeout_error e1 \<and> fn 2 = Inr v \<longrightarrow>
        retrying_call retry_if_timeout_error 250 3 fn 1 [] = (2, [500], Inr v))
   \<and> (fn 1 = Inl e1 \<and> retry_if_timeout_error e1 \<and> fn 2 = Inl e2 \<and> \<not> retry_if_timeout_error e2 \<longrightarrow>
        retrying_call retry_if_timeout_error 250 3 fn 1 [] = (2, [500], Inl (RetryError e2)))
   \<and> (fn 1 = Inl e1 \<and> retry_if_timeout_error e1 \<and> fn 2 = Inl e2 \<and> retry_if_timeout_error e2
        \<and> fn 3 = Inl e3 \<longrightarrow>
        retrying_call retry_if_timeout_error 250 3 fn 1 [] = (3, [500, 1000], Inl (RetryError e3)))
   \<and> (fn 1 = Inl e1 \<and> retry_if_timeout_error e1 \<and> fn 2 = Inl e2 \<and> retry_if_timeout_error e2
        \<and> fn 3 = Inr v \<longrightarrow>
        retrying_call retry_if_timeout_error 250 3 fn 1 [] = (3, [500, 1000], Inr v))
   \<and> (orcid_id \<noteq> [] \<and> token \<noteq> [] \<and>
        retrying_call retry_if_timeout_error 250 3 (\<lambda>k. get_works_from_orcid (net k)) 1 []
          = (attempts, sleeps, Inl x) \<longrightarrow>
        get_dois_from_orcid_api_v2_1_works orcid_id token net json_of = (attempts, sleeps, None))
   \<and> (orcid_id \<noteq> [] \<and> token \<noteq> [] \<and>
        retrying_call retry_if_timeout_error 250 3 (\<lambda>k. get_works_from_orcid (net k)) 1 []
          = (attempts, sleeps, Inr res) \<longrightarrow>
        get_dois_from_orcid_api_v2_1_works orcid_id token net json_of
          = (attempts, sleeps, json_of (text_body res)))"
proof (intro conjI)
  show "orcid_id \<noteq> [] \<and> api 0 = Inl e \<and> is_request_exception e \<longrightarrow>
      get_extids_from_orcid get_doi api orcid_id = (1, Inr empty_ext_ids_dict)"
    using get_extids_one_attempt [of orcid_id api e get_doi] by blast
  show "fst (get_extids_from_orcid get_doi api orcid_id) \<le> 1"
    by (rule get_extids_at_most_one)
  show "fst (retrying_call retry_if_timeout_error 250 3 fn 1 []) \<le> 3"
    by (rule retrying_call_attempts) simp
  show "fn 1 = Inr v \<longrightarrow>
        retrying_call retry_if_timeout_error 250 3 fn 1 [] = (1, [], Inr v)"
    using retry_1_returns [of fn v] by blast
  show "fn 1 = Inl e1 \<and> \<not> retry_if_timeout_error e1 \<longrightarrow>
        retrying_call retry_if_timeout_error 250 3 fn 1 [] = (1, [], Inl (RetryError e1))"
    using retry_1_fails [of fn e1] by blast
  show "fn 1 = Inl e1 \<and> retry_if_timeout_error e1 \<and> fn 2 = Inr v \<longrightarrow>
        retrying_call retry_if_timeout_error 250 3 fn 1 [] = (2, [500], Inr v)"
    using retry_2_returns [of fn e1 v] by blast
  show "fn 1 = Inl e1 \<and> retry_if_timeout_error e1 \<and> fn 2 = Inl e2 \<and> \<not> retry_if_timeout_error e2 \<longrightarrow>
        retrying_call retry_if_timeout_error 250 3 fn 1 [] = (2, [500], Inl (RetryError e2))"
    using retry_2_fails [of fn e1 e2] by blast
  show "fn 1 = Inl e1 \<and> retry_if_timeout_error e1 \<and> fn 2 = Inl e2 \<and> retry_if_timeout_error e2
        \<and> fn 3 = Inl e3 \<longrightarrow>
        retrying_call retry_if_timeout_error 250 3 fn 1 [] = (3, [500, 1000], Inl (RetryError e3))"
    using retry_3_fails [of fn e1 e2 e3] by blast
  show "fn 1 = Inl e1 \<and> retry_if_timeout_error e1 \<and> fn 2 = Inl e2 \<and> retry_if_timeout_error e2
        \<and> fn 3 = Inr v \<longrightarrow>
        retrying_call retry_if_timeout_error 250 3 fn 1 [] = (3, [500, 1000], Inr v)"
    using retry_3_returns [of fn e1 e2 v] by blast
  show "orcid_id \<noteq> [] \<and> token \<noteq> [] \<and>
        retrying_call retry_if_timeout_error 250 3 (\<lambda>k. get_works_from_orcid (net k)) 1 []
          = (attempts, sleeps, Inl x) \<longrightarrow>
        get_dois_from_orcid_api_v2_1_works orcid_id token net json_of = (attempts, sleeps, None)"
    using get_dois_works_on_retry_error [of orcid_id token net attempts sleeps x json_of]
    by blast
  show "orcid_id \<noteq> [] \<and> token \<noteq> [] \<and>
        retrying_call retry_if_timeout_error 250 3 (\<lambda>k. get_works_from_orcid (net k)) 1 []
          = (attempts, sleeps, Inr res) \<longrightarrow>
        get_dois_from_orcid_api_v2_1_works orcid_id token net json_of
          = (attempts, sleeps, json_of (text_body res))"
    using get_dois_works_on_return [of orcid_id token net attempts sleeps res json_of]
    by blast
qed

text \<open>The amended claim on a network where every request times out: three requests,
  sleeps of 500 and 1000 milliseconds, and the early \<^verbatim>\<open>return []\<close>; and at an
  interface whose first read times out: one read.\<close>

theorem C7_retry_only_on_doi_request_witness:
  "get_extids_from_orcid (\<lambda>v. Some v) api_timeout_once ''0000-0001'' = (1, Inr empty_ext_ids_dict)
   \<and> retrying_call retry_if_timeout_error 250 3 (\<lambda>k. get_works_from_orcid (net_always_timeout k))
       1 [] = (3, [500, 1000], Inl (RetryError ReadTimeout))
   \<and> get_dois_from_orcid_api_v2_1_works ''0000-0001'' ''token'' net_always_timeout
       (\<lambda>body. Some body) = (3, [500, 1000], None)"
proof -
  have f: "(\<lambda>k. get_works_from_orcid (net_always_timeout k)) n = Inl ReadTimeout" for n
    by (simp add: get_works_from_orcid_def net_always_timeout_def)
  have t: "retry_if_timeout_error ReadTimeout" "is_request_exception ReadTimeout"
    by (simp_all add: retry_if_timeout_error_def is_request_exception_def)
  have a: "api_timeout_once 0 = Inl ReadTimeout"
    by (simp add: api_timeout_once_def)
  note c = C7_retry_only_on_doi_request [of "''0000-0001''" api_timeout_once ReadTimeout
      "\<lambda>v. Some v" "\<lambda>k. get_works_from_orcid (net_always_timeout k)" _ ReadTimeout ReadTimeout
      ReadTimeout "''token''" net_always_timeout 3 "[500, 1000]" "RetryError ReadTimeout"
      "\<lambda>body. Some body"]
  from c f t a have 1: "get_extids_from_orcid (\<lambda>v. Some v) api_timeout_once ''0000-0001''
      = (1, Inr empty_ext_ids_dict)" by simp
  from c f t have 2: "retrying_call retry_if_timeout_error 250 3
      (\<lambda>k. get_works_from_orcid (net_always_timeout k)) 1 []
      = (3, [500, 1000], Inl (RetryError ReadTimeout))" by simp
  from c 2 have 3: "get_dois_from_orcid_api_v2_1_works ''0000-0001'' ''token''
      net_always_timeout (\<lambda>body. Some body) = (3, [500, 1000], None)" by simp
  from 1 2 3 show ?thesis by simp
qed

text \<open>A network whose first request times out and whose second returns: two requests,
  one sleep of 500 milliseconds, and the body of the second response is decoded.\<close>

lemma second_request_returns:
  "get_dois_from_orcid_api_v2_1_works ''0000-0001'' ''token''
       (\<lambda>k. if k = 1 then Inl ConnectTimeout else Inr \<lparr>status_code = 200, text_body = ''{}''\<rparr>)
       (\<lambda>body. Some body) = (2, [500], Some ''{}'')"
proof -
  let ?net = "\<lambda>k::nat. if k = 1 then Inl ConnectTimeout
      else Inr \<lparr>status_code = 200, text_body = ''{}''\<rparr>"
  have 1: "(\<lambda>k. get_works_from_orcid (?net k)) 1 = Inl ConnectTimeout"
    by (simp add: get_works_from_orcid_def)
  have 2: "(\<lambda>k. get_works_from_orcid (?net k)) 2 = Inr \<lparr>status_code = 200, text_body = ''{}''\<rparr>"
    by (simp add: get_works_from_orcid_def)
  have t: "retry_if_timeout_error ConnectTimeout"
    by (simp add: retry_if_timeout_error_def)
  from retry_2_returns [of "\<lambda>k. get_works_from_orcid (?net k)" ConnectTimeout
      "\<lparr>status_code = 200, text_body = ''{}''\<rparr>", OF 1 t 2]
  show ?thesis
    by (simp add: get_dois_from_orcid_api_v2_1_works_def)
qed

text \<open>Where the first read returns, the snapshot holds the DOI as given and as
  \<^verbatim>\<open>get_doi\<close> normalises it.\<close>

lemma snapshot_of_one_doi:
  "get_extids_from_orcid (\<lambda>v. Some (''doi:'' @ v)) (\<lambda>k. Inr (Some one_doi_profile)) ''0000-0001''
     = (1, Inr (empty_ext_ids_dict\<lparr>doi_ids := {''10.1/x'', ''doi:10.1/x''}\<rparr>))"
  by (simp add: get_extids_from_orcid_def one_doi_profile_def ext_ids_add_def
      empty_ext_ids_dict_def py_lower_def lower_char_def)

end
